theory Spec2Isabelle
  imports Complex_Main "HOL-Library.Log_Nat"
begin

section \<open>JavaScript values\<close>

text \<open>
  The server in \<^verbatim>\<open>src/index.mjs\<close> receives parsed JSON from the backend and reads its
  members with no check of their type. A value of the program is therefore modelled as it
  is at run time: \<^verbatim>\<open>undefined\<close>, \<^verbatim>\<open>null\<close>, a boolean, a number, a string, an array or
  an object with its members in order.

  Numbers: \<open>Num q\<close> is the number whose value is the rational \<open>q\<close>, a finite double; JSON
  has no other numbers. The sign of zero is not kept. Strings are lists of ASCII characters.
  An object lists each of its members once.
\<close>

datatype jsval =
    Undefined
  | Null
  | Bool bool
  | Num rat
  | Str string
  | Arr "jsval list"
  | Obj "(string \<times> jsval) list"

type_synonym jsobj = "(string \<times> jsval) list"

text \<open>
  What a \<^verbatim>\<open>throw\<close> carries. \<open>Error\<close> is raised by the program itself with the message
  it builds; \<open>TypeError\<close> and \<open>SyntaxError\<close> are raised by the runtime.
\<close>

datatype js_error = Error string | TypeError string | SyntaxError string

fun message :: "js_error \<Rightarrow> string" where
  "message (Error m) = m"
| "message (TypeError m) = m"
| "message (SyntaxError m) = m"

text \<open>The condition of \<^verbatim>\<open>if (v)\<close>, \<^verbatim>\<open>!v\<close>, \<^verbatim>\<open>v || w\<close> and \<^verbatim>\<open>v ? a : b\<close>.\<close>

fun truthy :: "jsval \<Rightarrow> bool" where
  "truthy Undefined = False"
| "truthy Null = False"
| "truthy (Bool b) = b"
| "truthy (Num n) = (n \<noteq> 0)"
| "truthy (Str s) = (s \<noteq> [])"
| "truthy (Arr xs) = True"
| "truthy (Obj kvs) = True"

text \<open>\<^verbatim>\<open>a || b\<close>: the first operand when it is truthy, else the second.\<close>

definition js_or :: "jsval \<Rightarrow> jsval \<Rightarrow> jsval" where
  "js_or a b = (if truthy a then a else b)"

text \<open>An optional parameter of a tool: absent is \<^verbatim>\<open>undefined\<close>.\<close>

definition opt_str :: "string option \<Rightarrow> jsval" where
  "opt_str x = (case x of None \<Rightarrow> Undefined | Some s \<Rightarrow> Str s)"

text \<open>
  \<^verbatim>\<open>v.k\<close> for the member names the program reads. None of them is a member of a built-in
  prototype except \<^verbatim>\<open>length\<close>, so the read finds an own member of an object, the length of
  an array or string, and \<^verbatim>\<open>undefined\<close> otherwise. On \<^verbatim>\<open>null\<close> and \<^verbatim>\<open>undefined\<close> the
  runtime throws a TypeError, whose message is the runtime's (\<open>tmsg\<close>).
\<close>

definition get :: "(string \<Rightarrow> string) \<Rightarrow> jsval \<Rightarrow> string \<Rightarrow> js_error + jsval" where
  "get tmsg v k =
     (case v of
        Undefined \<Rightarrow> Inl (TypeError (tmsg k))
      | Null \<Rightarrow> Inl (TypeError (tmsg k))
      | Obj kvs \<Rightarrow> Inr (case map_of kvs k of None \<Rightarrow> Undefined | Some x \<Rightarrow> x)
      | Arr xs \<Rightarrow> Inr (if k = ''length'' then Num (of_nat (length xs)) else Undefined)
      | Str s \<Rightarrow> Inr (if k = ''length'' then Num (of_nat (length s)) else Undefined)
      | _ \<Rightarrow> Inr Undefined)"

text \<open>Sequencing of computations that may throw.\<close>

definition bindE :: "js_error + 'a \<Rightarrow> ('a \<Rightarrow> js_error + 'b) \<Rightarrow> js_error + 'b" where
  "bindE m f = (case m of Inl e \<Rightarrow> Inl e | Inr x \<Rightarrow> f x)"

fun mapE :: "('a \<Rightarrow> js_error + 'b) \<Rightarrow> 'a list \<Rightarrow> js_error + 'b list" where
  "mapE f [] = Inr []"
| "mapE f (x # xs) = bindE (f x) (\<lambda>y. bindE (mapE f xs) (\<lambda>ys. Inr (y # ys)))"

section \<open>Numbers\<close>

text \<open>
  Decimal digits of a natural number and of an integer, as \<^verbatim>\<open>String(n)\<close> prints them.
  \<open>digits\<close> is applied to numbers that are not negative.
\<close>

function digits :: "int \<Rightarrow> string" where
  "digits n = (if n < 10 then [''0123456789'' ! nat n]
               else digits (n div 10) @ [''0123456789'' ! nat (n mod 10)])"
  by pat_completeness auto
termination
  by (relation "measure nat") auto

declare digits.simps [simp del]

definition show_nat :: "nat \<Rightarrow> string" where
  "show_nat n = digits (int n)"

definition show_int :: "int \<Rightarrow> string" where
  "show_int i = (if i < 0 then CHR ''-'' # digits (- i) else digits i)"

text \<open>
  A number is a double: a finite one, given by its rational value, NaN or an infinity. The
  sign of zero is not kept: \<^verbatim>\<open>-0\<close> prints as \<^verbatim>\<open>0\<close> and is not greater than zero, and the
  program divides by 1024, by 1000 and by a limit that is greater than zero only.

  \<open>fl x\<close> is the result of an operation whose exact value is \<open>x\<close>: the nearest double (53 bits,
  fewer below \<open>2^-1022\<close>, ties to even), or an infinity when the nearest one lies beyond the
  largest double.
\<close>

datatype jsnum = Fin rat | NaN | PosInf | NegInf

definition pow2 :: "int \<Rightarrow> rat" where
  "pow2 k = (if 0 \<le> k then 2 ^ nat k else 1 / 2 ^ nat (- k))"

text \<open>The binary exponent of a positive rational: \<open>pow2 (ilog2 x) \<le> x < pow2 (ilog2 x + 1)\<close>.\<close>

definition ilog2 :: "rat \<Rightarrow> int" where
  "ilog2 x = (let (p, q) = quotient_of x; k = bitlen p - bitlen q
              in if pow2 k \<le> x then k else k - 1)"

definition round_even :: "rat \<Rightarrow> int" where
  "round_even y = (let f = \<lfloor>y\<rfloor>; r = y - of_int f
                   in if r < 1 / 2 then f else if 1 / 2 < r then f + 1
                      else if even f then f else f + 1)"

definition fl :: "rat \<Rightarrow> jsnum" where
  "fl x = (if x = 0 then Fin 0
           else let e = max (ilog2 \<bar>x\<bar>) (- 1022);
                    y = of_int (round_even (x * pow2 (52 - e))) * pow2 (e - 52)
                in if 1024 \<le> ilog2 \<bar>y\<bar> then (if 0 < x then PosInf else NegInf)
                   else Fin y)"

text \<open>\<^verbatim>\<open>a / b\<close> and \<^verbatim>\<open>a * b\<close> on numbers.\<close>

fun js_div :: "jsnum \<Rightarrow> jsnum \<Rightarrow> jsnum" where
  "js_div (Fin a) (Fin b) =
     (if b = 0 then (if a = 0 then NaN else if 0 < a then PosInf else NegInf)
      else fl (a / b))"
| "js_div (Fin a) PosInf = Fin 0"
| "js_div (Fin a) NegInf = Fin 0"
| "js_div PosInf (Fin b) = (if 0 \<le> b then PosInf else NegInf)"
| "js_div NegInf (Fin b) = (if 0 \<le> b then NegInf else PosInf)"
| "js_div _ _ = NaN"

fun js_mul :: "jsnum \<Rightarrow> jsnum \<Rightarrow> jsnum" where
  "js_mul (Fin a) (Fin b) = fl (a * b)"
| "js_mul PosInf (Fin b) = (if b = 0 then NaN else if 0 < b then PosInf else NegInf)"
| "js_mul NegInf (Fin b) = (if b = 0 then NaN else if 0 < b then NegInf else PosInf)"
| "js_mul (Fin a) PosInf = (if a = 0 then NaN else if 0 < a then PosInf else NegInf)"
| "js_mul (Fin a) NegInf = (if a = 0 then NaN else if 0 < a then NegInf else PosInf)"
| "js_mul PosInf PosInf = PosInf"
| "js_mul NegInf NegInf = PosInf"
| "js_mul PosInf NegInf = NegInf"
| "js_mul NegInf PosInf = NegInf"
| "js_mul _ _ = NaN"

text \<open>\<^verbatim>\<open>x > 0\<close> on numbers: false for NaN.\<close>

fun js_gt0 :: "jsnum \<Rightarrow> bool" where
  "js_gt0 (Fin a) = (0 < a)"
| "js_gt0 PosInf = True"
| "js_gt0 _ = False"

text \<open>\<^verbatim>\<open>Math.round\<close>: the nearest integer, a tie going up.\<close>

fun Math_round :: "jsnum \<Rightarrow> jsnum" where
  "Math_round (Fin a) = Fin (of_int \<lfloor>a + 1 / 2\<rfloor>)"
| "Math_round x = x"

text \<open>
  A safe integer: an integer of magnitude below \<open>2^53\<close>, which is 9007199254740992. The
  shortest decimal digits that read back as such a number are its exact digits.
\<close>

definition is_safe_integer :: "rat \<Rightarrow> bool" where
  "is_safe_integer a \<longleftrightarrow> of_int \<lfloor>a\<rfloor> = a \<and> \<bar>a\<bar> < 9007199254740992"

text \<open>A number of tenths, printed with one digit after the point.\<close>

definition tenths :: "int \<Rightarrow> string" where
  "tenths n = digits (n div 10) @ ''.'' @ digits (n mod 10)"

section \<open>The runtime and the world outside the program\<close>

text \<open>
  The functions of Node.js that the program calls and whose result depends on the platform
  or on more of JavaScript than the model holds. Every theorem below holds for every
  platform.
\<close>

record platform =
  path_resolve :: "string \<Rightarrow> string \<Rightarrow> string"
    \<comment> \<open>\<^verbatim>\<open>resolve(p)\<close> with the working directory as first argument\<close>
  path_relative :: "string \<Rightarrow> string \<Rightarrow> string \<Rightarrow> string"
    \<comment> \<open>\<^verbatim>\<open>relative(from, to)\<close> with the working directory as first argument\<close>
  path_isAbsolute :: "string \<Rightarrow> bool"
  JSON_stringify :: "jsval \<Rightarrow> string"
    \<comment> \<open>\<^verbatim>\<open>JSON.stringify(v)\<close>\<close>
  JSON_stringify_indent :: "jsval \<Rightarrow> string"
    \<comment> \<open>\<^verbatim>\<open>JSON.stringify(v, null, 2)\<close>\<close>
  Buffer_from_base64 :: "jsval \<Rightarrow> js_error + string"
    \<comment> \<open>\<^verbatim>\<open>Buffer.from(v, 'base64')\<close>: the decoded bytes, or the TypeError\<close>
  object_ToString :: "jsval \<Rightarrow> js_error + string"
    \<comment> \<open>\<^verbatim>\<open>String(v)\<close> for an array or an object\<close>
  other_ToNumber :: "jsval \<Rightarrow> js_error + jsnum"
    \<comment> \<open>\<^verbatim>\<open>Number(v)\<close> for a string, an array or an object\<close>
  toLocaleString :: "jsval \<Rightarrow> js_error + string"
    \<comment> \<open>\<^verbatim>\<open>v.toLocaleString()\<close>\<close>
  double_toString :: "rat \<Rightarrow> string"
    \<comment> \<open>\<^verbatim>\<open>String(x)\<close> for a finite number that is not a safe integer: the shortest decimal
        digits that read back as \<^verbatim>\<open>x\<close>, with an exponent from \<^verbatim>\<open>1e21\<close> on and below \<^verbatim>\<open>1e-6\<close>\<close>
  TypeError_message :: "string \<Rightarrow> string"
    \<comment> \<open>the message of the TypeError for a read of the named member of null or undefined,
        or for the named operation on a value that does not support it\<close>

text \<open>An HTTP request as \<^verbatim>\<open>fetch\<close> receives it, and what comes back.\<close>

record request =
  req_url :: string
  req_method :: string
  req_headers :: "(string \<times> string) list"
  req_body :: "string option"

record response =
  status :: nat
  statusText :: string
  json_body :: "js_error + jsval"
    \<comment> \<open>what \<^verbatim>\<open>res.json()\<close> gives: the parsed body, or the error when the body is not JSON\<close>

datatype fetch_result = Rejected js_error | Responded response

text \<open>
  The process environment, the backend and the disk. \<open>writeFileSync\<close> gives the error of
  a write that fails.
\<close>

record world =
  PAGEBOLT_API_KEY :: "string option"
  PAGEBOLT_BASE_URL :: "string option"
  cwd :: string
  fetch :: "request \<Rightarrow> fetch_result"
  writeFileSync :: "string \<Rightarrow> string \<Rightarrow> js_error option"

text \<open>What a run of a tool does to the outside, in order.\<close>

datatype event = HttpRequest request | FileWrite string string

text \<open>The result of a tool, as the protocol defines it.\<close>

datatype content_item =
    Text string
  | Image jsval jsval
  | Resource string string jsval

record tool_result =
  content :: "content_item list"
  isError :: bool

text \<open>A handler returns a result or its promise rejects.\<close>

datatype outcome = Returned tool_result | Thrown js_error

definition error_result :: "string \<Rightarrow> tool_result" where
  "error_result t = \<lparr>content = [Text t], isError = True\<rparr>"

definition ok_result :: "content_item list \<Rightarrow> tool_result" where
  "ok_result c = \<lparr>content = c, isError = False\<rparr>"

section \<open>Coercions\<close>

definition type_error :: "platform \<Rightarrow> string \<Rightarrow> js_error" where
  "type_error pf what = TypeError (TypeError_message pf what)"

definition getprop :: "platform \<Rightarrow> jsval \<Rightarrow> string \<Rightarrow> js_error + jsval" where
  "getprop pf v k = get (TypeError_message pf) v k"

text \<open>
  \<^verbatim>\<open>String(x)\<close> and \<^verbatim>\<open>`${x}`\<close> for a number: the exact digits of a safe integer; for any
  other finite number the digits are the runtime's.
\<close>

fun Number_toString :: "platform \<Rightarrow> jsnum \<Rightarrow> string" where
  "Number_toString pf (Fin a) =
     (if is_safe_integer a then show_int \<lfloor>a\<rfloor> else double_toString pf a)"
| "Number_toString pf NaN = ''NaN''"
| "Number_toString pf PosInf = ''Infinity''"
| "Number_toString pf NegInf = ''-Infinity''"

text \<open>
  \<^verbatim>\<open>x.toFixed(1)\<close>: the sign, then the magnitude rounded to tenths, a tie going up, with
  one digit after the point; from \<^verbatim>\<open>1e21\<close> on the magnitude is printed as \<^verbatim>\<open>String\<close> does.
\<close>

fun toFixed1 :: "platform \<Rightarrow> jsnum \<Rightarrow> string" where
  "toFixed1 pf (Fin a) =
     (if a < 0 then ''-'' else []) @
     (if 1000000000000000000000 \<le> \<bar>a\<bar> then Number_toString pf (Fin \<bar>a\<bar>)
      else tenths \<lfloor>\<bar>a\<bar> * 10 + 1 / 2\<rfloor>)"
| "toFixed1 pf NaN = ''NaN''"
| "toFixed1 pf PosInf = ''Infinity''"
| "toFixed1 pf NegInf = ''-Infinity''"

text \<open>\<^verbatim>\<open>`${v}`\<close> in a template literal.\<close>

definition ToString :: "platform \<Rightarrow> jsval \<Rightarrow> js_error + string" where
  "ToString pf v =
     (case v of
        Undefined \<Rightarrow> Inr ''undefined''
      | Null \<Rightarrow> Inr ''null''
      | Bool b \<Rightarrow> Inr (if b then ''true'' else ''false'')
      | Num q \<Rightarrow> Inr (Number_toString pf (Fin q))
      | Str s \<Rightarrow> Inr s
      | _ \<Rightarrow> object_ToString pf v)"

text \<open>The operand of \<^verbatim>\<open>/\<close> and of \<^verbatim>\<open>>\<close> as a number.\<close>

definition ToNumber :: "platform \<Rightarrow> jsval \<Rightarrow> js_error + jsnum" where
  "ToNumber pf v =
     (case v of
        Undefined \<Rightarrow> Inr NaN
      | Null \<Rightarrow> Inr (Fin 0)
      | Bool b \<Rightarrow> Inr (Fin (if b then 1 else 0))
      | Num q \<Rightarrow> Inr (Fin q)
      | _ \<Rightarrow> other_ToNumber pf v)"

text \<open>A template literal: fixed text and interpolated values, joined from left to right.\<close>

datatype part = Lit string | Val jsval

fun template :: "platform \<Rightarrow> part list \<Rightarrow> js_error + string" where
  "template pf [] = Inr []"
| "template pf (Lit s # ps) = bindE (template pf ps) (\<lambda>r. Inr (s @ r))"
| "template pf (Val v # ps) =
     bindE (ToString pf v) (\<lambda>s. bindE (template pf ps) (\<lambda>r. Inr (s @ r)))"

section \<open>Configuration and helpers of \<^verbatim>\<open>src/index.mjs\<close>\<close>

text \<open>\<^verbatim>\<open>v || d\<close> for an optional string \<^verbatim>\<open>v\<close> and a string \<^verbatim>\<open>d\<close> that is not empty.\<close>

definition or_default :: "string option \<Rightarrow> string \<Rightarrow> string" where
  "or_default v d = (case v of None \<Rightarrow> d | Some s \<Rightarrow> if s \<noteq> [] then s else d)"

text \<open>\<^verbatim>\<open>API_KEY = process.env.PAGEBOLT_API_KEY\<close>.\<close>

definition API_KEY :: "world \<Rightarrow> jsval" where
  "API_KEY w = opt_str (PAGEBOLT_API_KEY w)"

text \<open>
  \<^verbatim>\<open>BASE_URL = (process.env.PAGEBOLT_BASE_URL || 'https://pagebolt.dev').replace(/\/$/, '')\<close>:
  one slash at the end is removed.
\<close>

definition strip_slash :: "string \<Rightarrow> string" where
  "strip_slash s = (if s \<noteq> [] \<and> last s = CHR ''/'' then butlast s else s)"

definition BASE_URL :: "world \<Rightarrow> string" where
  "BASE_URL w =
     strip_slash (or_default (PAGEBOLT_BASE_URL w) ''https://pagebolt.dev'')"

definition requireApiKey :: "world \<Rightarrow> js_error + unit" where
  "requireApiKey w =
     (if \<not> truthy (API_KEY w)
      then Inl (Error (''PAGEBOLT_API_KEY environment variable is required. '' @
                       ''Get your free API key at https://pagebolt.dev''))
      else Inr ())"

text \<open>\<^verbatim>\<open>rel.startsWith('..')\<close>.\<close>

definition startsWith :: "string \<Rightarrow> string \<Rightarrow> bool" where
  "startsWith s p = (take (length p) s = p)"

text \<open>
  \<^verbatim>\<open>safePath(userPath, defaultName)\<close>. \<^verbatim>\<open>userPath\<close> is the optional \<^verbatim>\<open>saveTo\<close> parameter;
  the message prints it as the template literal does.
\<close>

definition safePath :: "platform \<Rightarrow> world \<Rightarrow> string option \<Rightarrow> string \<Rightarrow> js_error + string" where
  \<open>safePath pf w userPath defaultName =
     (let resolved = path_resolve pf (cwd w) (or_default userPath defaultName);
          rel = path_relative pf (cwd w) (cwd w) resolved
      in if path_isAbsolute pf rel \<or> startsWith rel ''..''
         then Inl (Error (''saveTo path must be within the current working directory. '' @
                          ''Got "'' @ (case userPath of None \<Rightarrow> ''undefined'' | Some u \<Rightarrow> u) @
                          ''", which resolves outside CWD ('' @ cwd w @ '').''))
         else Inr resolved)\<close>

text \<open>
  \<^verbatim>\<open>callApi(endpoint, options)\<close>. The options are the method, when one is given, and the
  body, \<^verbatim>\<open>undefined\<close> when none is given. \<open>api_request\<close> is the request handed to
  \<^verbatim>\<open>fetch\<close>; \<open>errorMsg\<close> is the \<^verbatim>\<open>try\<close>/\<^verbatim>\<open>catch\<close> that reads the body of a response
  that is not ok, followed by the conversion of the template literal. The result of
  \<open>callApi\<close> is the response or the error thrown, with the requests that were issued.
\<close>

definition res_ok :: "response \<Rightarrow> bool" where
  "res_ok res = (200 \<le> status res \<and> status res \<le> 299)"

definition res_json :: "response \<Rightarrow> js_error + jsval" where
  "res_json res = json_body res"

definition status_line :: "response \<Rightarrow> string" where
  "status_line res = ''HTTP '' @ show_nat (status res) @ '' '' @ statusText res"

definition errorMsg :: "platform \<Rightarrow> response \<Rightarrow> js_error + string" where
  "errorMsg pf res =
     (case bindE (res_json res) (\<lambda>errJson.
             bindE (getprop pf errJson ''error'') (\<lambda>e.
               Inr (js_or e (Str (JSON_stringify pf errJson))))) of
        Inl _ \<Rightarrow> Inr (status_line res)
      | Inr m \<Rightarrow> ToString pf m)"

definition api_request :: "platform \<Rightarrow> world \<Rightarrow> string \<Rightarrow> string option \<Rightarrow> jsval \<Rightarrow> request" where
  "api_request pf w endpoint opt_method opt_body =
     (let url = BASE_URL w @ endpoint;
          method = or_default opt_method ''GET'';
          headers = [(''x-api-key'', (case PAGEBOLT_API_KEY w of None \<Rightarrow> ''undefined''
                                      | Some k \<Rightarrow> k)),
                     (''user-agent'', ''pagebolt-mcp/1.6.2'')] @
                    (if truthy opt_body then [(''Content-Type'', ''application/json'')] else [])
      in \<lparr>req_url = url, req_method = method, req_headers = headers,
          req_body = (if truthy opt_body then Some (JSON_stringify pf opt_body) else None)\<rparr>)"

definition callApi ::
  "platform \<Rightarrow> world \<Rightarrow> string \<Rightarrow> string option \<Rightarrow> jsval \<Rightarrow> (js_error + response) \<times> event list"
where
  "callApi pf w endpoint opt_method opt_body =
     (case requireApiKey w of
        Inl e \<Rightarrow> (Inl e, [])
      | Inr _ \<Rightarrow>
          let req = api_request pf w endpoint opt_method opt_body
          in case fetch w req of
               Rejected e \<Rightarrow> (Inl e, [HttpRequest req])
             | Responded res \<Rightarrow>
                 if \<not> res_ok res
                 then (case errorMsg pf res of
                         Inl e \<Rightarrow> (Inl e, [HttpRequest req])
                       | Inr m \<Rightarrow> (Inl (Error (''PageBolt API error: '' @ m)), [HttpRequest req]))
                 else (Inr res, [HttpRequest req]))"

text \<open>
  \<^verbatim>\<open>imageMimeType(format)\<close>, for the formats the tool schemas admit and \<^verbatim>\<open>jpg\<close>.
\<close>

definition imageMimeType :: "string \<Rightarrow> string" where
  "imageMimeType format =
     (if format = ''png'' then ''image/png''
      else if format = ''jpeg'' then ''image/jpeg''
      else if format = ''jpg'' then ''image/jpeg''
      else if format = ''webp'' then ''image/webp''
      else ''image/png'')"

section \<open>Tool parameters\<close>

text \<open>
  The parameters of a tool are checked against the tool's schema before the handler runs.
  A record holds the members the handler reads, with the type the schema gives them, and
  the remaining members in \<open>rest\<close>, which the handler only passes on. An optional member
  that is absent is \<open>None\<close>. The order of the members in the request body is not kept.
\<close>

definition opt_member :: "string \<Rightarrow> string option \<Rightarrow> jsobj" where
  "opt_member k v = (case v of None \<Rightarrow> [] | Some s \<Rightarrow> [(k, Str s)])"

record screenshot_params =
  ss_url :: "string option"
  ss_html :: "string option"
  ss_markdown :: "string option"
  ss_format :: "string option"
  ss_rest :: jsobj

record pdf_params =
  pdf_url :: "string option"
  pdf_html :: "string option"
  pdf_saveTo :: "string option"
  pdf_rest :: jsobj

record og_params =
  og_format :: "string option"
  og_rest :: jsobj

record sequence_params =
  seq_steps :: "jsval list option"
  seq_rest :: jsobj

record video_params =
  vid_steps :: "jsval list option"
  vid_format :: "string option"
  vid_saveTo :: "string option"
  vid_rest :: jsobj

record inspect_params =
  in_url :: "string option"
  in_html :: "string option"
  in_rest :: jsobj

definition newline :: string where
  "newline = [CHR 0x0A]"

text \<open>The dash and the arrow of the messages, in UTF-8.\<close>

definition emdash :: string where
  "emdash = [CHR 0xE2, CHR 0x80, CHR 0x94]"

definition arrow :: string where
  "arrow = [CHR 0xE2, CHR 0x86, CHR 0x92]"

definition to_outcome :: "js_error + tool_result \<Rightarrow> outcome" where
  "to_outcome r = (case r of Inl e \<Rightarrow> Thrown e | Inr x \<Rightarrow> Returned x)"

section \<open>Tool: take_screenshot\<close>

definition screenshot_result :: "platform \<Rightarrow> screenshot_params \<Rightarrow> response \<Rightarrow> js_error + tool_result" where
  "screenshot_result pf params res =
     bindE (res_json res) (\<lambda>data.
       let format = or_default (ss_format params) ''png'' in
       bindE (getprop pf data ''data'') (\<lambda>d.
       bindE (getprop pf data ''size_bytes'') (\<lambda>size_bytes.
       bindE (getprop pf data ''duration_ms'') (\<lambda>duration_ms.
       bindE (template pf [Lit ''Screenshot captured successfully. Format: '', Lit format,
                           Lit '', Size: '', Val size_bytes, Lit '' bytes, Duration: '',
                           Val duration_ms, Lit ''ms'']) (\<lambda>text.
       bindE (getprop pf data ''metadata'') (\<lambda>metadata.
         Inr (ok_result
               ([Image d (Str (imageMimeType format)), Text text] @
                (if truthy metadata
                 then [Text (''Metadata:'' @ newline @ JSON_stringify_indent pf metadata)]
                 else [])))))))))"

definition take_screenshot :: "platform \<Rightarrow> world \<Rightarrow> screenshot_params \<Rightarrow> outcome \<times> event list" where
  \<open>take_screenshot pf w params =
     (if \<not> truthy (opt_str (ss_url params)) \<and> \<not> truthy (opt_str (ss_html params)) \<and>
         \<not> truthy (opt_str (ss_markdown params))
      then (Returned (error_result ''Error: One of "url", "html", or "markdown" is required.''), [])
      else
        case callApi pf w ''/api/v1/screenshot'' (Some ''POST'')
               (Obj (opt_member ''url'' (ss_url params) @ opt_member ''html'' (ss_html params) @
                     opt_member ''markdown'' (ss_markdown params) @
                     opt_member ''format'' (ss_format params) @ ss_rest params @
                     [(''response_type'', Str ''json'')])) of
          (Inl e, tr) \<Rightarrow> (Thrown e, tr)
        | (Inr res, tr) \<Rightarrow> (to_outcome (screenshot_result pf params res), tr))\<close>

section \<open>Tool: generate_pdf\<close>

text \<open>
  The block ``best-effort save to disk'' of generate_pdf and record_video: every error inside
  it is caught and leaves \<^verbatim>\<open>savedPath\<close> null. The result is \<^verbatim>\<open>savedPath\<close> and the
  writes that were attempted.
\<close>

definition save_to_disk ::
  "platform \<Rightarrow> world \<Rightarrow> jsval \<Rightarrow> string option \<Rightarrow> string \<Rightarrow> jsval \<times> event list"
where
  "save_to_disk pf w data saveTo defaultName =
     (case safePath pf w saveTo defaultName of
        Inl _ \<Rightarrow> (Null, [])
      | Inr outputPath \<Rightarrow>
          (case bindE (getprop pf data ''data'') (Buffer_from_base64 pf) of
             Inl _ \<Rightarrow> (Null, [])
           | Inr buffer \<Rightarrow>
               (case writeFileSync w outputPath buffer of
                  Some _ \<Rightarrow> (Null, [FileWrite outputPath buffer])
                | None \<Rightarrow> (Str outputPath, [FileWrite outputPath buffer]))))"

definition not_saved :: string where
  "not_saved = ''(not saved to disk '' @ emdash @ '' use the embedded resource data below)''"

definition pdf_result :: "platform \<Rightarrow> jsval \<Rightarrow> jsval \<Rightarrow> js_error + tool_result" where
  "pdf_result pf data savedPath =
     (let fileNote = (if truthy savedPath then [Lit ''  File: '', Val savedPath]
                      else [Lit (''  File: '' @ not_saved)]) in
      bindE (getprop pf data ''data'') (\<lambda>blob.
      bindE (getprop pf data ''size_bytes'') (\<lambda>size_bytes.
      bindE (getprop pf data ''duration_ms'') (\<lambda>duration_ms.
      bindE (template pf ([Lit (''PDF generated successfully.'' @ newline)] @ fileNote @
                          [Lit newline, Lit ''  Size: '', Val size_bytes,
                           Lit ('' bytes'' @ newline), Lit ''  Duration: '', Val duration_ms,
                           Lit ''ms''])) (\<lambda>text.
        Inr (ok_result [Resource ''pagebolt://pdf/output.pdf'' ''application/pdf'' blob,
                        Text text]))))))"

definition generate_pdf :: "platform \<Rightarrow> world \<Rightarrow> pdf_params \<Rightarrow> outcome \<times> event list" where
  \<open>generate_pdf pf w params =
     (if \<not> truthy (opt_str (pdf_url params)) \<and> \<not> truthy (opt_str (pdf_html params))
      then (Returned (error_result ''Error: Either "url" or "html" is required.''), [])
      else
        case callApi pf w ''/api/v1/pdf'' (Some ''POST'')
               (Obj (opt_member ''url'' (pdf_url params) @ opt_member ''html'' (pdf_html params) @
                     pdf_rest params @ [(''response_type'', Str ''json'')])) of
          (Inl e, tr) \<Rightarrow> (Thrown e, tr)
        | (Inr res, tr) \<Rightarrow>
            (case res_json res of
               Inl e \<Rightarrow> (Thrown e, tr)
             | Inr data \<Rightarrow>
                 (case save_to_disk pf w data (pdf_saveTo params) ''./output.pdf'' of
                    (savedPath, wr) \<Rightarrow> (to_outcome (pdf_result pf data savedPath), tr @ wr))))\<close>

section \<open>Tool: create_og_image\<close>

definition og_result :: "platform \<Rightarrow> og_params \<Rightarrow> response \<Rightarrow> js_error + tool_result" where
  "og_result pf params res =
     bindE (res_json res) (\<lambda>data.
       let format = or_default (og_format params) ''png'' in
       bindE (getprop pf data ''data'') (\<lambda>d.
       bindE (getprop pf data ''size_bytes'') (\<lambda>size_bytes.
       bindE (getprop pf data ''duration_ms'') (\<lambda>duration_ms.
       bindE (template pf [Lit ''OG image created successfully. Format: '', Lit format,
                           Lit '', Size: '', Val size_bytes, Lit '' bytes, Duration: '',
                           Val duration_ms, Lit ''ms'']) (\<lambda>text.
         Inr (ok_result [Image d (Str (imageMimeType format)), Text text]))))))"

definition create_og_image :: "platform \<Rightarrow> world \<Rightarrow> og_params \<Rightarrow> outcome \<times> event list" where
  "create_og_image pf w params =
     (case callApi pf w ''/api/v1/og-image'' (Some ''POST'')
             (Obj (opt_member ''format'' (og_format params) @ og_rest params @
                   [(''response_type'', Str ''json'')])) of
        (Inl e, tr) \<Rightarrow> (Thrown e, tr)
      | (Inr res, tr) \<Rightarrow> (to_outcome (og_result pf params res), tr))"

section \<open>Arrays\<close>

text \<open>
  \<^verbatim>\<open>for (const x of v)\<close>: the elements of an array, the characters of a string, and a
  TypeError for a value that is not iterable.
\<close>

definition iterate :: "platform \<Rightarrow> jsval \<Rightarrow> js_error + jsval list" where
  "iterate pf v =
     (case v of
        Arr xs \<Rightarrow> Inr xs
      | Str s \<Rightarrow> Inr (map (\<lambda>c. Str [c]) s)
      | _ \<Rightarrow> Inl (type_error pf ''is not iterable''))"

text \<open>
  The receiver of \<^verbatim>\<open>v.filter(f)\<close> and \<^verbatim>\<open>v.map(f)\<close>: the method exists on arrays only, and
  the call on any other value throws a TypeError.
\<close>

definition array_method :: "platform \<Rightarrow> jsval \<Rightarrow> string \<Rightarrow> js_error + jsval list" where
  "array_method pf v name = (case v of Arr xs \<Rightarrow> Inr xs | _ \<Rightarrow> Inl (type_error pf name))"

fun filterE :: "('a \<Rightarrow> js_error + bool) \<Rightarrow> 'a list \<Rightarrow> js_error + 'a list" where
  "filterE f [] = Inr []"
| "filterE f (x # xs) =
     bindE (f x) (\<lambda>b. bindE (filterE f xs) (\<lambda>ys. Inr (if b then x # ys else ys)))"

text \<open>\<^verbatim>\<open>lines.join(sep)\<close> on an array of strings.\<close>

fun join :: "string \<Rightarrow> string list \<Rightarrow> string" where
  "join sep [] = []"
| "join sep [x] = x"
| "join sep (x # y # ys) = x @ sep @ join sep (y # ys)"

section \<open>Tool: run_sequence\<close>

text \<open>\<^verbatim>\<open>!params.steps || params.steps.length === 0\<close>.\<close>

definition no_steps :: "jsval list option \<Rightarrow> bool" where
  "no_steps steps = (case steps of None \<Rightarrow> True | Some xs \<Rightarrow> length xs = 0)"

definition steps_member :: "jsval list option \<Rightarrow> jsobj" where
  "steps_member steps = (case steps of None \<Rightarrow> [] | Some xs \<Rightarrow> [(''steps'', Arr xs)])"

text \<open>The body of the loop over \<^verbatim>\<open>data.outputs\<close>: what one output adds to the content.\<close>

definition output_items :: "platform \<Rightarrow> jsval \<Rightarrow> js_error + content_item list" where
  "output_items pf output =
     bindE (getprop pf output ''type'') (\<lambda>ty.
       if ty = Str ''screenshot'' then
         bindE (getprop pf output ''data'') (\<lambda>d.
         bindE (getprop pf output ''content_type'') (\<lambda>content_type.
         bindE (getprop pf output ''name'') (\<lambda>name.
         bindE (getprop pf output ''format'') (\<lambda>format.
         bindE (getprop pf output ''size_bytes'') (\<lambda>size_bytes.
         bindE (getprop pf output ''step_index'') (\<lambda>step_index.
         bindE (template pf [Lit ''['', Val name, Lit (''] Screenshot '' @ emdash @ '' ''),
                             Val format, Lit '', '', Val size_bytes, Lit '' bytes, step '',
                             Val step_index]) (\<lambda>text.
           Inr [Image d content_type, Text text])))))))
       else if ty = Str ''pdf'' then
         bindE (getprop pf output ''name'') (\<lambda>name.
         bindE (getprop pf output ''format'') (\<lambda>format.
         bindE (getprop pf output ''size_bytes'') (\<lambda>size_bytes.
         bindE (getprop pf output ''step_index'') (\<lambda>step_index.
         bindE (template pf [Lit ''['', Val name, Lit (''] PDF generated '' @ emdash @ '' ''),
                             Val format, Lit '', '', Val size_bytes, Lit '' bytes, step '',
                             Val step_index,
                             Lit '' (base64 data available in raw response)'']) (\<lambda>text.
           Inr [Text text])))))
       else Inr [])"

text \<open>\<^verbatim>\<open>s => s.status === 'error'\<close> and the text of one failed step.\<close>

definition is_failed :: "platform \<Rightarrow> jsval \<Rightarrow> js_error + bool" where
  "is_failed pf s = bindE (getprop pf s ''status'') (\<lambda>st. Inr (st = Str ''error''))"

definition failed_text :: "platform \<Rightarrow> jsval \<Rightarrow> js_error + string" where
  "failed_text pf s =
     bindE (getprop pf s ''step_index'') (\<lambda>step_index.
     bindE (getprop pf s ''action'') (\<lambda>action.
     bindE (getprop pf s ''error'') (\<lambda>err.
       template pf [Lit ''Step '', Val step_index, Lit '' ('', Val action, Lit ''): '', Val err])))"

definition sequence_result :: "platform \<Rightarrow> response \<Rightarrow> js_error + tool_result" where
  "sequence_result pf res =
     bindE (res_json res) (\<lambda>data.
     bindE (getprop pf data ''outputs'') (\<lambda>outputs.
     bindE (iterate pf outputs) (\<lambda>outs.
     bindE (mapE (output_items pf) outs) (\<lambda>items.
     bindE (getprop pf data ''step_results'') (\<lambda>step_results.
     bindE (array_method pf step_results ''filter'') (\<lambda>srs.
     bindE (filterE (is_failed pf) srs) (\<lambda>failedSteps.
     bindE (getprop pf data ''steps_completed'') (\<lambda>steps_completed.
     bindE (getprop pf data ''total_steps'') (\<lambda>total_steps.
     bindE (getprop pf outputs ''length'') (\<lambda>n_outputs.
     bindE (getprop pf data ''total_duration_ms'') (\<lambda>total_duration_ms.
     bindE (template pf [Lit ''Sequence complete: '', Val steps_completed, Lit ''/'',
                         Val total_steps, Lit '' steps, '', Val n_outputs, Lit '' outputs, '',
                         Val total_duration_ms, Lit ''ms total.'']) (\<lambda>summary1.
     bindE (if 0 < length failedSteps
            then bindE (mapE (failed_text pf) failedSteps) (\<lambda>ts.
                   Inr (newline @ ''Failed steps: '' @ join ''; '' ts))
            else Inr []) (\<lambda>summary2.
     bindE (getprop pf data ''usage'') (\<lambda>usage.
     bindE (getprop pf usage ''outputs_charged'') (\<lambda>outputs_charged.
     bindE (template pf [Lit (newline @ ''Usage: ''), Val outputs_charged,
                         Lit '' request(s) charged, '']) (\<lambda>summary3.
     bindE (getprop pf usage ''remaining'') (\<lambda>remaining.
     bindE (template pf [Val remaining, Lit '' remaining.'']) (\<lambda>summary4.
       Inr (ok_result (concat items @
                       [Text (summary1 @ summary2 @ summary3 @ summary4)]))))))))))))))))))))"

definition run_sequence :: "platform \<Rightarrow> world \<Rightarrow> sequence_params \<Rightarrow> outcome \<times> event list" where
  \<open>run_sequence pf w params =
     (if no_steps (seq_steps params)
      then (Returned (error_result ''Error: "steps" must be a non-empty array.''), [])
      else
        case callApi pf w ''/api/v1/sequence'' (Some ''POST'')
               (Obj (steps_member (seq_steps params) @ seq_rest params)) of
          (Inl err, tr) \<Rightarrow> (Returned (error_result (''Sequence error: '' @ message err)), tr)
        | (Inr res, tr) \<Rightarrow>
            (case sequence_result pf res of
               Inl err \<Rightarrow> (Returned (error_result (''Sequence error: '' @ message err)), tr)
             | Inr r \<Rightarrow> (Returned r, tr)))\<close>

section \<open>Tool: record_video\<close>

definition videoMimeType :: "string \<Rightarrow> string" where
  "videoMimeType ext =
     (if ext = ''mp4'' then ''video/mp4''
      else if ext = ''webm'' then ''video/webm''
      else if ext = ''gif'' then ''image/gif''
      else ''video/mp4'')"

text \<open>
  \<^verbatim>\<open>const ext = format === 'gif' ? 'gif' : format\<close> is \<^verbatim>\<open>format\<close> itself, written
  \<open>ext\<close> below. \<open>quotient_toFixed1\<close> is \<^verbatim>\<open>(v / d).toFixed(1)\<close> for a member \<^verbatim>\<open>v\<close> of
  the response and a constant \<^verbatim>\<open>d\<close>.
\<close>

definition quotient_toFixed1 :: "platform \<Rightarrow> jsval \<Rightarrow> rat \<Rightarrow> js_error + string" where
  "quotient_toFixed1 pf v d = bindE (ToNumber pf v) (\<lambda>x. Inr (toFixed1 pf (js_div x (Fin d))))"

definition video_result ::
  "platform \<Rightarrow> string \<Rightarrow> jsval \<Rightarrow> jsval \<Rightarrow> js_error + tool_result"
where
  "video_result pf ext data savedPath =
     bindE (getprop pf data ''duration_ms'') (\<lambda>duration_ms.
     bindE (quotient_toFixed1 pf duration_ms 1000) (\<lambda>durationSec.
     let fileNote = (if truthy savedPath then [Lit ''  File:     '', Val savedPath, Lit newline]
                     else [Lit (''  File:     '' @ not_saved @ newline)]) in
     bindE (getprop pf data ''data'') (\<lambda>blob.
     bindE (template pf ([Lit (''Video recorded successfully.'' @ newline)] @ fileNote)) (\<lambda>t1.
     bindE (getprop pf data ''format'') (\<lambda>format.
     bindE (template pf [Lit ''  Format:   '', Val format, Lit newline]) (\<lambda>t2.
     bindE (getprop pf data ''size_bytes'') (\<lambda>size_bytes.
     bindE (quotient_toFixed1 pf size_bytes 1024) (\<lambda>kb.
     bindE (getprop pf data ''frames'') (\<lambda>frames.
     bindE (getprop pf data ''steps_completed'') (\<lambda>steps_completed.
     bindE (getprop pf data ''total_steps'') (\<lambda>total_steps.
     bindE (template pf [Lit ''  Size:     '', Lit kb, Lit ('' KB'' @ newline),
                         Lit ''  Duration: '', Lit durationSec, Lit (''s'' @ newline),
                         Lit ''  Frames:   '', Val frames, Lit newline,
                         Lit ''  Steps:    '', Val steps_completed, Lit ''/'', Val total_steps,
                         Lit ('' completed'' @ newline)]) (\<lambda>t3.
     bindE (getprop pf data ''usage'') (\<lambda>usage.
     bindE (getprop pf usage ''video_cost'') (\<lambda>video_cost.
     bindE (template pf [Lit ''  Cost:     '', Val video_cost,
                         Lit ('' API requests'' @ newline)]) (\<lambda>t4.
     bindE (getprop pf usage ''remaining'') (\<lambda>remaining.
     bindE (template pf [Lit ''  Remaining: '', Val remaining, Lit '' requests'']) (\<lambda>t5.
       Inr (ok_result [Resource (''pagebolt://video/recording.'' @ ext) (videoMimeType ext) blob,
                       Text (t1 @ t2 @ t3 @ t4 @ t5)]))))))))))))))))))"

definition record_video :: "platform \<Rightarrow> world \<Rightarrow> video_params \<Rightarrow> outcome \<times> event list" where
  \<open>record_video pf w params =
     (if no_steps (vid_steps params)
      then (Returned (error_result ''Error: "steps" must be a non-empty array.''), [])
      else
        case callApi pf w ''/api/v1/video'' (Some ''POST'')
               (Obj (steps_member (vid_steps params) @ opt_member ''format'' (vid_format params) @
                     vid_rest params @ [(''response_type'', Str ''json'')])) of
          (Inl err, tr) \<Rightarrow>
            (Returned (error_result (''Video recording error: '' @ message err)), tr)
        | (Inr res, tr) \<Rightarrow>
            (case res_json res of
               Inl err \<Rightarrow>
                 (Returned (error_result (''Video recording error: '' @ message err)), tr)
             | Inr data \<Rightarrow>
                 let ext = or_default (vid_format params) ''mp4'' in
                 (case save_to_disk pf w data (vid_saveTo params) (''./recording.'' @ ext) of
                    (savedPath, wr) \<Rightarrow>
                      (case video_result pf ext data savedPath of
                         Inl err \<Rightarrow>
                           (Returned (error_result (''Video recording error: '' @ message err)),
                            tr @ wr)
                       | Inr r \<Rightarrow> (Returned r, tr @ wr)))))\<close>

section \<open>Tool: inspect_page\<close>

text \<open>
  The five blocks of the form
  \<^verbatim>\<open>if (v && v.length > 0) { lines.push(`Title (${v.length}):`); for (const x of v) ...; lines.push('') }\<close>
  differ in the title and in the lines of one element.
\<close>

definition block_lines ::
  "platform \<Rightarrow> jsval \<Rightarrow> string \<Rightarrow> (jsval \<Rightarrow> js_error + string list) \<Rightarrow> js_error + string list"
where
  "block_lines pf v title item =
     (if \<not> truthy v then Inr []
      else
        bindE (getprop pf v ''length'') (\<lambda>len.
        bindE (ToNumber pf len) (\<lambda>n.
          if \<not> js_gt0 n then Inr []
          else
            bindE (template pf [Lit title, Lit '' ('', Val len, Lit ''):'']) (\<lambda>head.
            bindE (iterate pf v) (\<lambda>xs.
            bindE (mapE item xs) (\<lambda>ls. Inr ([head] @ concat ls @ [[]])))))))"

text \<open>\<^verbatim>\<open>el.attributes && el.attributes.k\<close>.\<close>

definition attribute :: "platform \<Rightarrow> jsval \<Rightarrow> string \<Rightarrow> js_error + jsval" where
  "attribute pf el k =
     bindE (getprop pf el ''attributes'') (\<lambda>a. if truthy a then getprop pf a k else Inr a)"

definition heading_lines :: "platform \<Rightarrow> jsval \<Rightarrow> js_error + string list" where
  "heading_lines pf h =
     bindE (getprop pf h ''level'') (\<lambda>level.
     bindE (getprop pf h ''text'') (\<lambda>text.
     bindE (getprop pf h ''selector'') (\<lambda>selector.
     bindE (template pf [Lit ''  H'', Val level, Lit '': '', Val text,
                         Lit ('' '' @ emdash @ '' selector: ''), Val selector]) (\<lambda>l.
       Inr [l]))))"

definition element_lines :: "platform \<Rightarrow> jsval \<Rightarrow> js_error + string list" where
  \<open>element_lines pf el =
     bindE (getprop pf el ''tag'') (\<lambda>tag.
     bindE (template pf [Lit ''['', Val tag]) (\<lambda>d1.
     bindE (attribute pf el ''type'') (\<lambda>ty.
     bindE (if truthy ty then template pf [Lit '' type='', Val ty] else Inr []) (\<lambda>d2.
     bindE (getprop pf el ''text'') (\<lambda>text.
     bindE (if truthy text then template pf [Lit '' "'', Val text, Lit ''"''] else Inr []) (\<lambda>d3.
     bindE (attribute pf el ''placeholder'') (\<lambda>placeholder.
     bindE (if truthy placeholder
            then template pf [Lit '' placeholder="'', Val placeholder, Lit ''"'']
            else Inr []) (\<lambda>d4.
     bindE (attribute pf el ''href'') (\<lambda>href.
     bindE (if truthy href then template pf [Lit ('' '' @ arrow @ '' ''), Val href]
            else Inr []) (\<lambda>d5.
     bindE (getprop pf el ''selector'') (\<lambda>selector.
     bindE (template pf [Lit ('' '' @ emdash @ '' selector: ''), Val selector]) (\<lambda>d6.
       Inr [''  '' @ d1 @ d2 @ '']'' @ d3 @ d4 @ d5 @ d6]))))))))))))\<close>

definition field_lines :: "platform \<Rightarrow> jsval \<Rightarrow> js_error + string list" where
  "field_lines pf field = bindE (template pf [Lit ''    - '', Val field]) (\<lambda>l. Inr [l])"

definition form_lines :: "platform \<Rightarrow> jsval \<Rightarrow> js_error + string list" where
  "form_lines pf f =
     bindE (getprop pf f ''method'') (\<lambda>m.
     bindE (getprop pf f ''action'') (\<lambda>a.
     bindE (getprop pf f ''selector'') (\<lambda>selector.
     bindE (template pf [Lit ''  '', Val selector, Lit '' ('', Val (js_or m (Str ''GET'')),
                         Lit '' '', Val (js_or a (Str ''(none)'')), Lit ''): '']) (\<lambda>l1.
     bindE (getprop pf f ''fields'') (\<lambda>fields.
     bindE (getprop pf fields ''length'') (\<lambda>n.
     bindE (template pf [Val n, Lit '' field(s)'']) (\<lambda>l2.
     bindE (iterate pf fields) (\<lambda>xs.
     bindE (mapE (field_lines pf) xs) (\<lambda>ls. Inr ((l1 @ l2) # concat ls))))))))))"

definition link_lines :: "platform \<Rightarrow> jsval \<Rightarrow> js_error + string list" where
  \<open>link_lines pf l =
     bindE (getprop pf l ''text'') (\<lambda>text.
     bindE (getprop pf l ''href'') (\<lambda>href.
     bindE (getprop pf l ''selector'') (\<lambda>selector.
     bindE (template pf [Lit ''  "'', Val (js_or text (Str ''(no text)'')),
                         Lit (''" '' @ arrow @ '' ''), Val href,
                         Lit ('' '' @ emdash @ '' selector: ''), Val selector]) (\<lambda>ln.
       Inr [ln]))))\<close>

definition image_lines :: "platform \<Rightarrow> jsval \<Rightarrow> js_error + string list" where
  \<open>image_lines pf img =
     bindE (getprop pf img ''alt'') (\<lambda>a.
     bindE (if truthy a then template pf [Lit ''"'', Val a, Lit ''"''] else Inr ''(no alt)'') (\<lambda>alt.
     bindE (getprop pf img ''src'') (\<lambda>src.
     bindE (getprop pf img ''selector'') (\<lambda>selector.
     bindE (template pf [Lit ''  '', Lit alt, Lit '' src='', Val src,
                         Lit ('' '' @ emdash @ '' selector: ''), Val selector]) (\<lambda>ln.
       Inr [ln])))))\<close>

text \<open>The lines for \<^verbatim>\<open>data.metadata\<close>.\<close>

definition metadata_line :: "platform \<Rightarrow> jsval \<Rightarrow> string \<Rightarrow> string \<Rightarrow> js_error + string list" where
  "metadata_line pf metadata k label =
     bindE (getprop pf metadata k) (\<lambda>v.
       if truthy v then bindE (template pf [Lit label, Val v]) (\<lambda>l. Inr [l]) else Inr [])"

definition metadata_lines :: "platform \<Rightarrow> jsval \<Rightarrow> js_error + string list" where
  "metadata_lines pf metadata =
     (if \<not> truthy metadata then Inr []
      else
        bindE (metadata_line pf metadata ''description'' ''Description: '') (\<lambda>l1.
        bindE (metadata_line pf metadata ''lang'' ''Language: '') (\<lambda>l2.
        bindE (metadata_line pf metadata ''httpStatusCode'' ''HTTP Status: '') (\<lambda>l3.
          Inr (l1 @ l2 @ l3)))))"

definition inspect_result :: "platform \<Rightarrow> inspect_params \<Rightarrow> response \<Rightarrow> js_error + tool_result" where
  "inspect_result pf params res =
     bindE (res_json res) (\<lambda>data.
     bindE (getprop pf data ''title'') (\<lambda>title.
     bindE (getprop pf data ''url'') (\<lambda>u.
     bindE (template pf [Lit ''Page: '', Val (js_or title (Str ''(untitled)'')), Lit '' ('',
                         Val (js_or (js_or u (opt_str (in_url params))) (Str ''html content'')),
                         Lit '')'']) (\<lambda>page.
     bindE (getprop pf data ''metadata'') (\<lambda>metadata.
     bindE (metadata_lines pf metadata) (\<lambda>meta.
     bindE (getprop pf data ''headings'') (\<lambda>headings.
     bindE (block_lines pf headings ''Headings'' (heading_lines pf)) (\<lambda>hs.
     bindE (getprop pf data ''elements'') (\<lambda>elements.
     bindE (block_lines pf elements ''Interactive Elements'' (element_lines pf)) (\<lambda>es.
     bindE (getprop pf data ''forms'') (\<lambda>forms.
     bindE (block_lines pf forms ''Forms'' (form_lines pf)) (\<lambda>fs.
     bindE (getprop pf data ''links'') (\<lambda>links.
     bindE (block_lines pf links ''Links'' (link_lines pf)) (\<lambda>ls.
     bindE (getprop pf data ''images'') (\<lambda>images.
     bindE (block_lines pf images ''Images'' (image_lines pf)) (\<lambda>is.
     bindE (getprop pf data ''duration_ms'') (\<lambda>duration_ms.
     bindE (template pf [Lit ''Duration: '', Val duration_ms, Lit ''ms'']) (\<lambda>duration.
       Inr (ok_result
             [Text (join newline
                      ([page] @ meta @ [[]] @ hs @ es @ fs @ ls @ is @ [duration]))])))))))))))))))))))"

definition inspect_page :: "platform \<Rightarrow> world \<Rightarrow> inspect_params \<Rightarrow> outcome \<times> event list" where
  \<open>inspect_page pf w params =
     (if \<not> truthy (opt_str (in_url params)) \<and> \<not> truthy (opt_str (in_html params))
      then (Returned (error_result ''Error: Either "url" or "html" is required.''), [])
      else
        case callApi pf w ''/api/v1/inspect'' (Some ''POST'')
               (Obj (opt_member ''url'' (in_url params) @ opt_member ''html'' (in_html params) @
                     in_rest params)) of
          (Inl err, tr) \<Rightarrow> (Returned (error_result (''Inspect error: '' @ message err)), tr)
        | (Inr res, tr) \<Rightarrow>
            (case inspect_result pf params res of
               Inl err \<Rightarrow> (Returned (error_result (''Inspect error: '' @ message err)), tr)
             | Inr r \<Rightarrow> (Returned r, tr)))\<close>

section \<open>Tool: list_devices\<close>

definition device_line :: "platform \<Rightarrow> jsval \<Rightarrow> js_error + string" where
  "device_line pf d =
     bindE (getprop pf d ''hasTouch'') (\<lambda>hasTouch.
     bindE (getprop pf d ''isMobile'') (\<lambda>isMobile.
     bindE (getprop pf d ''name'') (\<lambda>name.
     bindE (template pf [Lit ''  '', Val name, Lit ('' '' @ emdash @ '' '')]) (\<lambda>t1.
     bindE (getprop pf d ''viewport'') (\<lambda>viewport.
     bindE (getprop pf viewport ''width'') (\<lambda>width.
     bindE (template pf [Val width, Lit ''x'']) (\<lambda>t2.
     bindE (getprop pf viewport ''height'') (\<lambda>height.
     bindE (template pf [Val height, Lit '' @'']) (\<lambda>t3.
     bindE (getprop pf viewport ''deviceScaleFactor'') (\<lambda>deviceScaleFactor.
     bindE (template pf [Val deviceScaleFactor, Lit ''x'',
                         Lit (if truthy isMobile then '', mobile'' else []),
                         Lit (if truthy hasTouch then '', touch'' else [])]) (\<lambda>t4.
       Inr (t1 @ t2 @ t3 @ t4))))))))))))"

definition devices_result :: "platform \<Rightarrow> response \<Rightarrow> js_error + tool_result" where
  \<open>devices_result pf res =
     bindE (res_json res) (\<lambda>data.
     bindE (getprop pf data ''devices'') (\<lambda>devices.
     bindE (array_method pf devices ''map'') (\<lambda>ds.
     bindE (mapE (device_line pf) ds) (\<lambda>lines.
     bindE (getprop pf devices ''length'') (\<lambda>n.
     bindE (template pf [Lit ''Available device presets ('', Val n, Lit (''):'' @ newline)]) (\<lambda>head.
       Inr (ok_result
             [Text (head @ join newline lines @ newline @ newline @
                    ''Use the device name as the "viewportDevice" parameter in take_screenshot.'')])))))))\<close>

definition list_devices :: "platform \<Rightarrow> world \<Rightarrow> outcome \<times> event list" where
  "list_devices pf w =
     (case callApi pf w ''/api/v1/devices'' None Undefined of
        (Inl e, tr) \<Rightarrow> (Thrown e, tr)
      | (Inr res, tr) \<Rightarrow> (to_outcome (devices_result pf res), tr))"

section \<open>Tool: check_usage\<close>

text \<open>\<^verbatim>\<open>v.toLocaleString()\<close>: a TypeError on \<^verbatim>\<open>null\<close> and \<^verbatim>\<open>undefined\<close>.\<close>

definition locale_string :: "platform \<Rightarrow> jsval \<Rightarrow> js_error + string" where
  "locale_string pf v =
     (case v of
        Undefined \<Rightarrow> Inl (type_error pf ''toLocaleString'')
      | Null \<Rightarrow> Inl (type_error pf ''toLocaleString'')
      | _ \<Rightarrow> toLocaleString pf v)"

text \<open>
  \<^verbatim>\<open>const pct = usage.limit > 0 ? Math.round((usage.current / usage.limit) * 100) : 0\<close>
\<close>

definition usage_pct :: "platform \<Rightarrow> jsval \<Rightarrow> js_error + jsnum" where
  "usage_pct pf usage =
     bindE (getprop pf usage ''limit'') (\<lambda>limit.
     bindE (ToNumber pf limit) (\<lambda>l.
       if js_gt0 l
       then bindE (getprop pf usage ''current'') (\<lambda>current.
            bindE (ToNumber pf current) (\<lambda>c.
              Inr (Math_round (js_mul (js_div c l) (Fin 100)))))
       else Inr (Fin 0)))"

definition usage_result :: "platform \<Rightarrow> response \<Rightarrow> js_error + tool_result" where
  "usage_result pf res =
     bindE (res_json res) (\<lambda>data.
     bindE (getprop pf data ''plan'') (\<lambda>plan.
     bindE (getprop pf data ''usage'') (\<lambda>usage.
     bindE (usage_pct pf usage) (\<lambda>pct.
     bindE (template pf [Lit (''PageBolt Usage'' @ newline), Lit ''  Plan:      '', Val plan,
                         Lit newline]) (\<lambda>t1.
     bindE (getprop pf usage ''current'') (\<lambda>current.
     bindE (locale_string pf current) (\<lambda>used.
     bindE (getprop pf usage ''limit'') (\<lambda>limit.
     bindE (locale_string pf limit) (\<lambda>lim.
     bindE (getprop pf usage ''remaining'') (\<lambda>remaining.
     bindE (locale_string pf remaining) (\<lambda>rem.
       Inr (ok_result
             [Text (t1 @ ''  Used:      '' @ used @ '' / '' @ lim @ '' requests'' @ newline @
                    ''  Remaining: '' @ rem @ newline @
                    ''  Usage:     '' @ Number_toString pf pct @ ''%'')]))))))))))))"

definition check_usage :: "platform \<Rightarrow> world \<Rightarrow> outcome \<times> event list" where
  "check_usage pf w =
     (case callApi pf w ''/api/v1/usage'' None Undefined of
        (Inl e, tr) \<Rightarrow> (Thrown e, tr)
      | (Inr res, tr) \<Rightarrow> (to_outcome (usage_result pf res), tr))"

section \<open>The registered tools\<close>

text \<open>
  \<^verbatim>\<open>registerTools\<close> registers eight handlers under their names. A call of a tool is the
  name with the parameters of that tool.
\<close>

datatype tool_call =
    Take_screenshot screenshot_params
  | Generate_pdf pdf_params
  | Create_og_image og_params
  | Run_sequence sequence_params
  | Record_video video_params
  | Inspect_page inspect_params
  | List_devices
  | Check_usage

fun call_tool :: "platform \<Rightarrow> world \<Rightarrow> tool_call \<Rightarrow> outcome \<times> event list" where
  "call_tool pf w (Take_screenshot p) = take_screenshot pf w p"
| "call_tool pf w (Generate_pdf p) = generate_pdf pf w p"
| "call_tool pf w (Create_og_image p) = create_og_image pf w p"
| "call_tool pf w (Run_sequence p) = run_sequence pf w p"
| "call_tool pf w (Record_video p) = record_video pf w p"
| "call_tool pf w (Inspect_page p) = inspect_page pf w p"
| "call_tool pf w List_devices = list_devices pf w"
| "call_tool pf w Check_usage = check_usage pf w"

section \<open>Observations on a run\<close>

fun http_requests :: "event list \<Rightarrow> request list" where
  "http_requests [] = []"
| "http_requests (HttpRequest r # es) = r # http_requests es"
| "http_requests (FileWrite p d # es) = http_requests es"

fun file_writes :: "event list \<Rightarrow> (string \<times> string) list" where
  "file_writes [] = []"
| "file_writes (HttpRequest r # es) = file_writes es"
| "file_writes (FileWrite p d # es) = (p, d) # file_writes es"

text \<open>A run fails when the handler throws or returns a result flagged as an error.\<close>

fun failed :: "outcome \<Rightarrow> bool" where
  "failed (Thrown e) = True"
| "failed (Returned r) = isError r"

text \<open>\<open>contains t s\<close>: the text \<open>s\<close> occurs in \<open>t\<close>.\<close>

fun contains :: "string \<Rightarrow> string \<Rightarrow> bool" where
  "contains [] s = (s = [])"
| "contains (c # t) s = (startsWith (c # t) s \<or> contains t s)"

text \<open>
  The events of a call to \<open>callApi\<close>: nothing, or the one request, which needs the key.
  The events of the block that saves to disk: nothing, or one write to the path that
  \<open>safePath\<close> returned.
\<close>

definition api_trace :: "platform \<Rightarrow> world \<Rightarrow> event list \<Rightarrow> bool" where
  "api_trace pf w tr \<longleftrightarrow>
     tr = [] \<or> (truthy (API_KEY w) \<and> (\<exists>ep m b. tr = [HttpRequest (api_request pf w ep m b)]))"

definition write_trace :: "platform \<Rightarrow> world \<Rightarrow> string option \<Rightarrow> string \<Rightarrow> event list \<Rightarrow> bool" where
  "write_trace pf w s d wr \<longleftrightarrow>
     wr = [] \<or> (\<exists>path buf. wr = [FileWrite path buf] \<and> safePath pf w s d = Inr path)"

text \<open>The text items of a result, in order.\<close>

fun texts :: "content_item list \<Rightarrow> string list" where
  "texts [] = []"
| "texts (Text t # cs) = t # texts cs"
| "texts (c # cs) = texts cs"

fun outcome_texts :: "outcome \<Rightarrow> string list" where
  "outcome_texts (Returned r) = texts (content r)"
| "outcome_texts (Thrown e) = []"

section \<open>A concrete platform\<close>

text \<open>
  A platform on which the model can be run: Node.js on POSIX, as far as the examples
  below need it. The path functions follow \<^verbatim>\<open>path.posix\<close> for an absolute working
  directory. \<open>stringify\<close> escapes the quote and the backslash only; \<open>posix_ToNumber\<close> reads
  decimal integers only; \<open>posix_toLocaleString\<close> groups the digits of safe integers only;
  \<open>base64\<close> decodes the standard alphabet up to the first character outside it, and only
  strings.
\<close>

fun split_slash :: "string \<Rightarrow> string list" where
  "split_slash [] = [[]]"
| "split_slash (c # cs) =
     (if c = CHR ''/'' then [] # split_slash cs
      else (case split_slash cs of [] \<Rightarrow> [[c]] | s # ss \<Rightarrow> (c # s) # ss))"

fun normalize :: "string list \<Rightarrow> string list \<Rightarrow> string list" where
  "normalize acc [] = rev acc"
| "normalize acc (s # ss) =
     (if s = [] \<or> s = ''.'' then normalize acc ss
      else if s = ''..'' then normalize (tl acc) ss
      else normalize (s # acc) ss)"

definition posix_isAbsolute :: "string \<Rightarrow> bool" where
  "posix_isAbsolute p = (p \<noteq> [] \<and> hd p = CHR ''/'')"

definition segments :: "string \<Rightarrow> string \<Rightarrow> string list" where
  "segments dir p = normalize [] (split_slash (if posix_isAbsolute p then p else dir @ ''/'' @ p))"

definition posix_resolve :: "string \<Rightarrow> string \<Rightarrow> string" where
  "posix_resolve dir p = ''/'' @ join ''/'' (segments dir p)"

fun common :: "string list \<Rightarrow> string list \<Rightarrow> nat" where
  "common (x # xs) (y # ys) = (if x = y then Suc (common xs ys) else 0)"
| "common _ _ = 0"

definition posix_relative :: "string \<Rightarrow> string \<Rightarrow> string \<Rightarrow> string" where
  "posix_relative dir from to =
     (let f = segments dir from; t = segments dir to; n = common f t
      in join ''/'' (replicate (length f - n) ''..'' @ drop n t))"

text \<open>
  \<^verbatim>\<open>String(x)\<close> for a finite number \<^verbatim>\<open>x\<close>. For a positive double, \<open>shortest x\<close> is the least
  number \<open>k\<close> of digits, with the integer \<open>s\<close> of \<open>k\<close> digits and the exponent \<open>n\<close>, such that
  \<open>s * 10^(n - k)\<close> rounds to \<open>x\<close>, the nearest to \<open>x\<close> if there are two. It is enough to look
  at the two numbers of \<open>k\<close> digits next to \<open>x\<close>, below and above. \<open>magnitude x\<close> is the \<open>n\<close>
  with \<open>10^(n - 1) \<le> x < 10^n\<close>. A double needs at most 17 digits; a rational that is no
  double is printed with the first 17 digits.
\<close>

definition pow10 :: "int \<Rightarrow> rat" where
  "pow10 k = (if 0 \<le> k then 10 ^ nat k else 1 / 10 ^ nat (- k))"

definition magnitude :: "rat \<Rightarrow> int" where
  "magnitude x = (let g = (ilog2 x * 30103) div 100000
                  in if x < pow10 g then g else if x < pow10 (g + 1) then g + 1 else g + 2)"

definition candidates :: "rat \<Rightarrow> int \<Rightarrow> (int \<times> int) list" where
  "candidates x k =
     (let n = magnitude x; lo = \<lfloor>x / pow10 (n - k)\<rfloor>; hi = \<lceil>x / pow10 (n - k)\<rceil>
      in [(lo, n)] @
         (if hi = lo then []
          else if hi = 10 ^ nat k then [(10 ^ nat (k - 1), n + 1)]
          else [(hi, n)]))"

definition decimal_value :: "int \<Rightarrow> int \<times> int \<Rightarrow> rat" where
  "decimal_value k c = of_int (fst c) * pow10 (snd c - k)"

definition closest :: "rat \<Rightarrow> int \<Rightarrow> (int \<times> int) list \<Rightarrow> (int \<times> int) option" where
  "closest x k cs =
     (case filter (\<lambda>c. fl (decimal_value k c) = Fin x) cs of
        [] \<Rightarrow> None
      | [c] \<Rightarrow> Some c
      | c # d # _ \<Rightarrow>
          (let dc = \<bar>decimal_value k c - x\<bar>; dd = \<bar>decimal_value k d - x\<bar>
           in Some (if dc < dd then c else if dd < dc then d
                    else if even (fst c) then c else d)))"

definition shortest :: "rat \<Rightarrow> int \<times> int \<times> int" where
  "shortest x =
     (case List.find (\<lambda>k. closest x k (candidates x k) \<noteq> None) [1 .. 17] of
        None \<Rightarrow> (17, \<lfloor>x / pow10 (magnitude x - 17)\<rfloor>, magnitude x)
      | Some k \<Rightarrow>
          (case closest x k (candidates x k) of
             Some (s, n) \<Rightarrow> (k, s, n)
           | None \<Rightarrow> (17, \<lfloor>x / pow10 (magnitude x - 17)\<rfloor>, magnitude x)))"

definition zeros :: "int \<Rightarrow> string" where
  "zeros n = replicate (nat n) CHR ''0''"

definition positive_toString :: "rat \<Rightarrow> string" where
  "positive_toString x =
     (let (k, s, n) = shortest x; ds = digits s
      in if k \<le> n \<and> n \<le> 21 then ds @ zeros (n - k)
         else if 0 < n \<and> n \<le> 21 then take (nat n) ds @ ''.'' @ drop (nat n) ds
         else if - 6 < n \<and> n \<le> 0 then ''0.'' @ zeros (- n) @ ds
         else (if k = 1 then ds else take 1 ds @ ''.'' @ drop 1 ds) @ ''e'' @
              (if 0 \<le> n - 1 then ''+'' else ''-'') @ digits \<bar>n - 1\<bar>)"

definition posix_double_toString :: "rat \<Rightarrow> string" where
  "posix_double_toString x =
     (if x = 0 then ''0''
      else if x < 0 then ''-'' @ positive_toString (- x)
      else positive_toString x)"

definition posix_number :: "rat \<Rightarrow> string" where
  "posix_number q = (if is_safe_integer q then show_int \<lfloor>q\<rfloor> else posix_double_toString q)"

fun quote :: "string \<Rightarrow> string" where
  \<open>quote s = ''"'' @ concat (map (\<lambda>c. if c = CHR ''"'' \<or> c = CHR 0x5C then [CHR 0x5C, c] else [c]) s)
                @ ''"''\<close>

fun stringify :: "jsval \<Rightarrow> string" where
  "stringify Undefined = ''null''"
| "stringify Null = ''null''"
| "stringify (Bool b) = (if b then ''true'' else ''false'')"
| "stringify (Num q) = posix_number q"
| "stringify (Str s) = quote s"
| "stringify (Arr xs) = ''['' @ join '','' (map stringify xs) @ '']''"
| "stringify (Obj kvs) =
     ''{'' @ join '','' (map (\<lambda>kv. quote (fst kv) @ '':'' @ stringify (snd kv))
                            (filter (\<lambda>kv. snd kv \<noteq> Undefined) kvs)) @ ''}''"

fun js_string :: "jsval \<Rightarrow> string" where
  "js_string Undefined = ''undefined''"
| "js_string Null = ''null''"
| "js_string (Bool b) = (if b then ''true'' else ''false'')"
| "js_string (Num q) = posix_number q"
| "js_string (Str s) = s"
| "js_string (Arr xs) =
     join '','' (map (\<lambda>x. if x = Null \<or> x = Undefined then [] else js_string x) xs)"
| "js_string (Obj kvs) = ''[object Object]''"

fun own_toString :: "jsval \<Rightarrow> bool" where
  "own_toString (Obj kvs) = (map_of kvs ''toString'' \<noteq> None)"
| "own_toString (Arr xs) = list_ex own_toString xs"
| "own_toString _ = False"

definition posix_ToString :: "jsval \<Rightarrow> js_error + string" where
  "posix_ToString v =
     (if own_toString v then Inl (TypeError ''Cannot convert object to primitive value'')
      else Inr (js_string v))"

fun digits_value :: "nat \<Rightarrow> string \<Rightarrow> nat option" where
  "digits_value acc [] = Some acc"
| "digits_value acc (c # cs) =
     (if c \<in> set ''0123456789''
      then digits_value (acc * 10 + (of_char c - 48)) cs else None)"

definition posix_ToNumber :: "jsval \<Rightarrow> js_error + jsnum" where
  "posix_ToNumber v =
     (if own_toString v then Inl (TypeError ''Cannot convert object to primitive value'')
      else Inr (case digits_value 0 (js_string v) of
                  None \<Rightarrow> NaN | Some n \<Rightarrow> Fin (of_nat n)))"

function group_digits :: "int \<Rightarrow> string" where
  "group_digits n =
     (if n < 1000 then digits n
      else group_digits (n div 1000) @ '','' @
           (if n mod 1000 < 10 then ''00'' else if n mod 1000 < 100 then ''0'' else []) @
           digits (n mod 1000))"
  by pat_completeness auto
termination
  by (relation "measure nat") auto

declare group_digits.simps [simp del]

definition posix_toLocaleString :: "jsval \<Rightarrow> js_error + string" where
  "posix_toLocaleString v =
     (case v of
        Num q \<Rightarrow>
          Inr (if \<not> is_safe_integer q then posix_number q
               else if q < 0 then CHR ''-'' # group_digits (- \<lfloor>q\<rfloor>)
               else group_digits \<lfloor>q\<rfloor>)
      | _ \<Rightarrow> posix_ToString v)"

definition base64_alphabet :: string where
  "base64_alphabet = ''ABCDEFGHIJKLMNOPQRSTUVWXYZabcdefghijklmnopqrstuvwxyz0123456789+/''"

fun index_of :: "char \<Rightarrow> string \<Rightarrow> nat option" where
  "index_of c [] = None"
| "index_of c (x # xs) = (if c = x then Some 0 else map_option Suc (index_of c xs))"

fun base64 :: "nat \<Rightarrow> nat \<Rightarrow> string \<Rightarrow> string" where
  "base64 acc bits [] = []"
| "base64 acc bits (c # cs) =
     (case index_of c base64_alphabet of
        None \<Rightarrow> []
      | Some v \<Rightarrow>
          (if 2 \<le> bits
           then char_of ((acc * 64 + v) div 2 ^ (bits - 2)) #
                base64 ((acc * 64 + v) mod 2 ^ (bits - 2)) (bits - 2) cs
           else base64 (acc * 64 + v) (bits + 6) cs))"

definition posix_Buffer_from :: "jsval \<Rightarrow> js_error + string" where
  "posix_Buffer_from v =
     (case v of
        Str s \<Rightarrow> Inr (base64 0 0 s)
      | _ \<Rightarrow> Inl (TypeError ''The first argument must be of type string''))"

definition posix :: platform where
  "posix =
     \<lparr>path_resolve = posix_resolve,
      path_relative = posix_relative,
      path_isAbsolute = posix_isAbsolute,
      JSON_stringify = stringify,
      JSON_stringify_indent = stringify,
      Buffer_from_base64 = posix_Buffer_from,
      object_ToString = posix_ToString,
      other_ToNumber = posix_ToNumber,
      toLocaleString = posix_toLocaleString,
      double_toString = posix_double_toString,
      TypeError_message = (\<lambda>k. ''Cannot read properties ('' @ k @ '')'')\<rparr>"

text \<open>
  A world with the key set, the working directory \<^verbatim>\<open>/home/user/project\<close>, a disk that
  accepts every write and a backend that gives the same answer to every request.
\<close>

definition answering :: "fetch_result \<Rightarrow> world" where
  "answering r =
     \<lparr>PAGEBOLT_API_KEY = Some ''pf_live_0123'',
      PAGEBOLT_BASE_URL = None,
      cwd = ''/home/user/project'',
      fetch = (\<lambda>req. r),
      writeFileSync = (\<lambda>path buf. None)\<rparr>"

definition json_response :: "nat \<Rightarrow> string \<Rightarrow> jsval \<Rightarrow> response" where
  "json_response st txt v = \<lparr>status = st, statusText = txt, json_body = Inr v\<rparr>"

definition backend :: "jsval \<Rightarrow> world" where
  "backend v = answering (Responded (json_response 200 ''OK'' v))"

section \<open>Notions of the specification and examples\<close>

text \<open>A source field of a tool is missing when \<^verbatim>\<open>!params.field\<close> holds.\<close>

definition missing :: "string option \<Rightarrow> bool" where
  "missing x = (\<not> truthy (opt_str x))"

text \<open>The tools that save a file, with the \<^verbatim>\<open>saveTo\<close> parameter and the default name.\<close>

fun save_target :: "tool_call \<Rightarrow> (string option \<times> string) option" where
  "save_target (Generate_pdf p) = Some (pdf_saveTo p, ''./output.pdf'')"
| "save_target (Record_video p) =
     Some (vid_saveTo p, ''./recording.'' @ or_default (vid_format p) ''mp4'')"
| "save_target _ = None"

text \<open>
  A path is outside the working directory, in the words of the specification, when the
  path relative to the working directory is absolute or starts with two dots.
\<close>

definition outside_cwd :: "platform \<Rightarrow> world \<Rightarrow> string option \<Rightarrow> string \<Rightarrow> bool" where
  "outside_cwd pf w saveTo defaultName =
     (let rel = path_relative pf (cwd w) (cwd w)
                  (path_resolve pf (cwd w) (or_default saveTo defaultName))
      in path_isAbsolute pf rel \<or> startsWith rel ''..'')"

text \<open>
  The write to disk fails, in the words of the specification: safePath rejects the path, or
  the write of the decoded payload to the path that safePath returned throws.
\<close>

definition disk_write_fails ::
  "platform \<Rightarrow> world \<Rightarrow> jsval \<Rightarrow> string option \<Rightarrow> string \<Rightarrow> bool"
where
  "disk_write_fails pf w data saveTo defaultName \<longleftrightarrow>
     isl (safePath pf w saveTo defaultName) \<or>
     (\<exists>outputPath blob buffer e.
        safePath pf w saveTo defaultName = Inr outputPath \<and>
        getprop pf data ''data'' = Inr blob \<and> Buffer_from_base64 pf blob = Inr buffer \<and>
        writeFileSync w outputPath buffer = Some e)"

text \<open>Worlds, answers of the backend and calls on which the model is run below.\<close>

definition unreachable :: world where
  "unreachable = answering (Rejected (TypeError ''fetch failed''))"



text \<open>A response whose body is not JSON, with what \<^verbatim>\<open>res.json()\<close> throws on it.\<close>

definition not_json :: "nat \<Rightarrow> string \<Rightarrow> response" where
  "not_json st txt =
     \<lparr>status = st, statusText = txt,
      json_body = Inl (SyntaxError ''Unexpected token < in JSON at position 0'')\<rparr>"

definition pdf_data :: jsval where
  "pdf_data = Obj [(''data'', Str ''JVBERi0xLjQ=''), (''size_bytes'', Num 8),
                   (''duration_ms'', Num 812)]"

definition shot_data :: jsval where
  "shot_data = Obj [(''data'', Str ''iVBORw0KGgo=''), (''size_bytes'', Num 20480),
                    (''duration_ms'', Num 812)]"

definition page_data :: jsval where
  "page_data =
     Obj [(''title'', Str ''Example Domain''), (''url'', Str ''https://example.com/''),
          (''headings'', Arr [Obj [(''level'', Num 1), (''text'', Str ''Example Domain''),
                                   (''selector'', Str ''h1'')]]),
          (''size_bytes'', Num 1000), (''duration_ms'', Num 640)]"

definition video_data :: "int \<Rightarrow> int \<Rightarrow> jsval" where
  "video_data size_bytes duration_ms =
     Obj [(''data'', Str ''AAAAIGZ0eXA=''), (''format'', Str ''mp4''),
          (''size_bytes'', Num (of_int size_bytes)), (''duration_ms'', Num (of_int duration_ms)),
          (''frames'', Num 75), (''steps_completed'', Num 1), (''total_steps'', Num 1),
          (''usage'', Obj [(''video_cost'', Num 3), (''remaining'', Num 97)])]"


definition pdf_call :: "string option \<Rightarrow> pdf_params" where
  "pdf_call saveTo =
     \<lparr>pdf_url = Some ''https://example.com'', pdf_html = None, pdf_saveTo = saveTo,
      pdf_rest = [(''landscape'', Bool True)]\<rparr>"

definition video_call :: "string option \<Rightarrow> video_params" where
  "video_call saveTo =
     \<lparr>vid_steps = Some [Obj [(''action'', Str ''navigate''), (''url'', Str ''https://example.com'')]],
      vid_format = None, vid_saveTo = saveTo, vid_rest = []\<rparr>"

text \<open>
  \<open>backend_data w tr data\<close>: in the run with the events \<open>tr\<close>, the one request was
  answered with a status in 200..299 and the JSON body \<open>data\<close>.
\<close>

definition backend_data :: "world \<Rightarrow> event list \<Rightarrow> jsval \<Rightarrow> bool" where
  "backend_data w tr data \<longleftrightarrow>
     (\<exists>req res. http_requests tr = [req] \<and> fetch w req = Responded res \<and> res_ok res \<and>
                json_body res = Inr data)"

text \<open>A world whose disk refuses every write.\<close>

definition read_only :: "world \<Rightarrow> world" where
  "read_only w = w\<lparr>writeFileSync := (\<lambda>path buf. Some (Error ''EROFS: read-only file system''))\<rparr>"

text \<open>
  \<open>rendered pf obj k s\<close>: the text \<open>s\<close> is the member \<open>k\<close> of \<open>obj\<close> as a template literal
  prints it, with no arithmetic in between. \<open>scaled pf obj k d s\<close>: the text \<open>s\<close> is the
  member divided by \<open>d\<close> and rounded to one decimal. \<open>mentions out s\<close>: a text of the
  result contains \<open>s\<close>. \<open>reports_output pf output items\<close>: the items that run_sequence adds
  for an output are, for a screenshot or a pdf, one text that prints the size_bytes of the
  output, after the image of a screenshot, and nothing for any other output.
\<close>

definition rendered :: "platform \<Rightarrow> jsval \<Rightarrow> string \<Rightarrow> string \<Rightarrow> bool" where
  "rendered pf obj k s \<longleftrightarrow> (\<exists>v. getprop pf obj k = Inr v \<and> ToString pf v = Inr s)"

definition scaled :: "platform \<Rightarrow> jsval \<Rightarrow> string \<Rightarrow> rat \<Rightarrow> string \<Rightarrow> bool" where
  "scaled pf obj k d s \<longleftrightarrow>
     (\<exists>v x. getprop pf obj k = Inr v \<and> ToNumber pf v = Inr x \<and> s = toFixed1 pf (js_div x (Fin d)))"

definition mentions :: "outcome \<Rightarrow> string \<Rightarrow> bool" where
  "mentions out s = list_ex (\<lambda>t. contains t s) (outcome_texts out)"

definition reports_output :: "platform \<Rightarrow> jsval \<Rightarrow> content_item list \<Rightarrow> bool" where
  "reports_output pf output items \<longleftrightarrow>
     (\<exists>ty. getprop pf output ''type'' = Inr ty \<and>
        (if ty = Str ''screenshot'' \<or> ty = Str ''pdf''
         then (\<exists>s pre post. rendered pf output ''size_bytes'' s \<and>
                 texts items = [pre @ '', '' @ s @ '' bytes, step '' @ post] \<and>
                 length items = (if ty = Str ''screenshot'' then 2 else 1))
         else items = []))"

definition sequence_members :: jsobj where
  "sequence_members =
     [(''outputs'',
       Arr [Obj [(''type'', Str ''screenshot''), (''name'', Str ''home''),
                 (''format'', Str ''png''), (''size_bytes'', Num 20480),
                 (''step_index'', Num 1), (''data'', Str ''iVBORw0KGgo=''),
                 (''content_type'', Str ''image/png'')],
            Obj [(''type'', Str ''pdf''), (''name'', Str ''report''),
                 (''format'', Str ''A4''), (''size_bytes'', Num 51200),
                 (''step_index'', Num 2), (''data'', Str ''JVBERi0xLjQ='')]]),
      (''step_results'', Arr [Obj [(''status'', Str ''ok'')], Obj [(''status'', Str ''ok'')],
                              Obj [(''status'', Str ''ok'')]]),
      (''steps_completed'', Num 3), (''total_steps'', Num 3),
      (''total_duration_ms'', Num 1830),
      (''usage'', Obj [(''outputs_charged'', Num 2), (''remaining'', Num 98)])]"

definition sequence_data :: jsval where
  "sequence_data = Obj sequence_members"

text \<open>The same response with members size_bytes and duration_ms of its own.\<close>

definition sequence_data_sized :: jsval where
  "sequence_data_sized =
     Obj ([(''size_bytes'', Num 1000), (''duration_ms'', Num 2500)] @ sequence_members)"

definition screenshot_call :: screenshot_params where
  "screenshot_call =
     \<lparr>ss_url = Some ''https://example.com'', ss_html = None, ss_markdown = None,
      ss_format = Some ''webp'', ss_rest = [(''fullPage'', Bool True)]\<rparr>"

definition og_call :: og_params where
  "og_call = \<lparr>og_format = None, og_rest = [(''title'', Str ''Hello'')]\<rparr>"

definition inspect_call :: inspect_params where
  "inspect_call = \<lparr>in_url = Some ''https://example.com'', in_html = None, in_rest = []\<rparr>"

definition sequence_call :: sequence_params where
  "sequence_call =
     \<lparr>seq_steps = Some [Obj [(''action'', Str ''navigate''), (''url'', Str ''https://example.com'')],
                        Obj [(''action'', Str ''screenshot''), (''name'', Str ''home'')],
                        Obj [(''action'', Str ''pdf''), (''name'', Str ''report'')]],
      seq_rest = []\<rparr>"

text \<open>
  What the tools return for these responses and calls on the platform above: record_video
  for a video of 1000 bytes and 2500 ms that was saved to the default path, run_sequence
  for the two outputs of \<open>sequence_members\<close>, and the four other tools that report a size
  or a duration.
\<close>

definition video_example_text :: string where
  "video_example_text =
      ''Video recorded successfully.'' @ newline @
      ''  File:     /home/user/project/recording.mp4'' @ newline @
      ''  Format:   mp4'' @ newline @
      ''  Size:     1.0 KB'' @ newline @
      ''  Duration: 2.5s'' @ newline @
      ''  Frames:   75'' @ newline @
      ''  Steps:    1/1 completed'' @ newline @
      ''  Cost:     3 API requests'' @ newline @
      ''  Remaining: 97 requests''"

definition video_example :: tool_result where
  "video_example =
     \<lparr>content = [Resource ''pagebolt://video/recording.mp4'' ''video/mp4''
                        (Str ''AAAAIGZ0eXA=''),
                      Text video_example_text],
      isError = False\<rparr>"

definition sequence_example :: tool_result where
  "sequence_example =
     \<lparr>content =
        [Image (Str ''iVBORw0KGgo='') (Str ''image/png''),
         Text (''[home] Screenshot '' @ emdash @ '' png, 20480 bytes, step 1''),
         Text (''[report] PDF generated '' @ emdash @
               '' A4, 51200 bytes, step 2 (base64 data available in raw response)''),
         Text (''Sequence complete: 3/3 steps, 2 outputs, 1830ms total.'' @ newline @
               ''Usage: 2 request(s) charged, 98 remaining.'')],
      isError = False\<rparr>"

definition screenshot_example :: tool_result where
  "screenshot_example =
     \<lparr>content =
        [Image (Str ''iVBORw0KGgo='') (Str ''image/webp''),
         Text ''Screenshot captured successfully. Format: webp, Size: 20480 bytes, Duration: 812ms''],
      isError = False\<rparr>"

definition og_example :: tool_result where
  "og_example =
     \<lparr>content =
        [Image (Str ''iVBORw0KGgo='') (Str ''image/png''),
         Text ''OG image created successfully. Format: png, Size: 20480 bytes, Duration: 812ms''],
      isError = False\<rparr>"

definition pdf_example :: tool_result where
  "pdf_example =
     \<lparr>content =
        [Resource ''pagebolt://pdf/output.pdf'' ''application/pdf'' (Str ''JVBERi0xLjQ=''),
         Text (''PDF generated successfully.'' @ newline @
               ''  File: /home/user/project/output.pdf'' @ newline @
               ''  Size: 8 bytes'' @ newline @
               ''  Duration: 812ms'')],
      isError = False\<rparr>"

definition inspect_example :: tool_result where
  "inspect_example =
     \<lparr>content =
        [Text (''Page: Example Domain (https://example.com/)'' @ newline @ newline @
               ''Headings (1):'' @ newline @
               ''  H1: Example Domain '' @ emdash @ '' selector: h1'' @ newline @ newline @
               ''Duration: 640ms'')],
      isError = False\<rparr>"

section \<open>Sequencing, templates and texts\<close>

lemma bindE_Inr: "bindE m f = Inr y \<longleftrightarrow> (\<exists>x. m = Inr x \<and> f x = Inr y)"
  by (cases m) (auto simp: bindE_def)

lemma callApi_Inr:
  "callApi pf w ep m b = (Inr res, tr) \<Longrightarrow>
     tr = [HttpRequest (api_request pf w ep m b)] \<and>
     fetch w (api_request pf w ep m b) = Responded res \<and> res_ok res"
  by (auto simp: callApi_def requireApiKey_def Let_def
           split: sum.splits fetch_result.splits if_splits)

lemma template_Lit: "template pf (Lit s # ps) = Inr t \<longleftrightarrow> (\<exists>r. template pf ps = Inr r \<and> t = s @ r)"
  by (auto simp: bindE_Inr)

lemma template_Val:
  "template pf (Val v # ps) = Inr t \<longleftrightarrow>
     (\<exists>s r. ToString pf v = Inr s \<and> template pf ps = Inr r \<and> t = s @ r)"
  by (auto simp: bindE_Inr)

lemma template_append:
  "template pf (a @ b) =
     bindE (template pf a) (\<lambda>x. bindE (template pf b) (\<lambda>y. Inr (x @ y)))"
proof (induction a)
  case Nil
  show ?case by (cases "template pf b") (simp_all add: bindE_def)
next
  case (Cons x a)
  show ?case
  proof (cases x)
    case (Lit s)
    with Cons show ?thesis
      by (cases "template pf a"; cases "template pf b") (simp_all add: bindE_def)
  next
    case (Val v)
    with Cons show ?thesis
      by (cases "ToString pf v"; cases "template pf a"; cases "template pf b")
         (simp_all add: bindE_def)
  qed
qed

lemma template_append_Inr:
  "template pf (a @ b) = Inr t \<longleftrightarrow>
     (\<exists>x y. template pf a = Inr x \<and> template pf b = Inr y \<and> t = x @ y)"
  by (auto simp: template_append bindE_Inr)

lemma not_isl: "\<not> isl m \<longleftrightarrow> (\<exists>x. m = Inr x)"
  by (cases m) auto

lemma callApi_ok:
  "truthy (API_KEY w) \<Longrightarrow> fetch w (api_request pf w ep m b) = Responded res \<Longrightarrow> res_ok res \<Longrightarrow>
     callApi pf w ep m b = (Inr res, [HttpRequest (api_request pf w ep m b)])"
  by (simp add: callApi_def requireApiKey_def Let_def)

lemma startsWith_append: "startsWith (s @ post) s"
  by (simp add: startsWith_def)

lemma contains_append: "contains (pre @ s @ post) s"
proof (induction pre)
  case Nil
  show ?case
  proof (cases "s @ post")
    case Nil
    then show ?thesis by simp
  next
    case (Cons a list)
    have "startsWith (s @ post) s" by (rule startsWith_append)
    with Cons show ?thesis by simp
  qed
next
  case (Cons a pre)
  then show ?case by simp
qed



lemma backend_data_backend: "backend_data (backend v) tr data \<Longrightarrow> data = v"
  by (auto simp: backend_data_def backend_def answering_def json_response_def)

section \<open>Events of a run\<close>

lemma http_requests_append: "http_requests (a @ b) = http_requests a @ http_requests b"
  by (induction a rule: http_requests.induct) auto

lemma file_writes_append: "file_writes (a @ b) = file_writes a @ file_writes b"
  by (induction a rule: file_writes.induct) auto

lemma callApi_trace:
  "snd (callApi pf w ep m b) =
     (if truthy (API_KEY w) then [HttpRequest (api_request pf w ep m b)] else [])"
  by (auto simp: callApi_def requireApiKey_def Let_def split: fetch_result.splits sum.splits)

lemma callApi_pair:
  "callApi pf w ep m b = (r, tr) \<Longrightarrow>
     tr = (if truthy (API_KEY w) then [HttpRequest (api_request pf w ep m b)] else [])"
  using callApi_trace [of pf w ep m b] by simp

lemma api_trace_callApi: "callApi pf w ep m b = (r, tr) \<Longrightarrow> api_trace pf w tr"
proof -
  assume "callApi pf w ep m b = (r, tr)"
  then have "tr = (if truthy (API_KEY w) then [HttpRequest (api_request pf w ep m b)] else [])"
    by (rule callApi_pair)
  then show ?thesis
    by (cases "truthy (API_KEY w)") (auto simp: api_trace_def)
qed

lemma api_trace_Nil: "api_trace pf w []"
  by (simp add: api_trace_def)

lemma take_screenshot_trace: "api_trace pf w (snd (take_screenshot pf w p))"
  by (auto simp: take_screenshot_def api_trace_Nil split: prod.splits sum.splits
           dest: api_trace_callApi)

lemma create_og_image_trace: "api_trace pf w (snd (create_og_image pf w p))"
  by (auto simp: create_og_image_def api_trace_Nil split: prod.splits sum.splits
           dest: api_trace_callApi)

lemma run_sequence_trace: "api_trace pf w (snd (run_sequence pf w p))"
  by (auto simp: run_sequence_def api_trace_Nil split: prod.splits sum.splits
           dest: api_trace_callApi)

lemma inspect_page_trace: "api_trace pf w (snd (inspect_page pf w p))"
  by (auto simp: inspect_page_def api_trace_Nil split: prod.splits sum.splits
           dest: api_trace_callApi)

lemma list_devices_trace: "api_trace pf w (snd (list_devices pf w))"
  by (auto simp: list_devices_def api_trace_Nil split: prod.splits sum.splits
           dest: api_trace_callApi)

lemma check_usage_trace: "api_trace pf w (snd (check_usage pf w))"
  by (auto simp: check_usage_def api_trace_Nil split: prod.splits sum.splits
           dest: api_trace_callApi)

lemma save_to_disk_trace: "save_to_disk pf w data s d = (sp, wr) \<Longrightarrow> write_trace pf w s d wr"
  by (auto simp: save_to_disk_def write_trace_def split: sum.splits option.splits)

lemma generate_pdf_trace:
  "\<exists>tr wr. snd (generate_pdf pf w p) = tr @ wr \<and> api_trace pf w tr \<and>
      write_trace pf w (pdf_saveTo p) ''./output.pdf'' wr"
proof (cases "\<not> truthy (opt_str (pdf_url p)) \<and> \<not> truthy (opt_str (pdf_html p))")
  case True
  then have "snd (generate_pdf pf w p) = [] @ []" by (simp add: generate_pdf_def)
  then show ?thesis using api_trace_Nil write_trace_def by blast
next
  case False
  obtain r tr where c: "callApi pf w ''/api/v1/pdf'' (Some ''POST'')
               (Obj (opt_member ''url'' (pdf_url p) @ opt_member ''html'' (pdf_html p) @
                     pdf_rest p @ [(''response_type'', Str ''json'')])) = (r, tr)"
    by (cases "callApi pf w ''/api/v1/pdf'' (Some ''POST'')
               (Obj (opt_member ''url'' (pdf_url p) @ opt_member ''html'' (pdf_html p) @
                     pdf_rest p @ [(''response_type'', Str ''json'')]))") auto
  have t: "api_trace pf w tr" using c by (rule api_trace_callApi)
  show ?thesis
  proof (cases r)
    case (Inl e)
    with False c have "snd (generate_pdf pf w p) = tr @ []" by (auto simp: generate_pdf_def)
    with t show ?thesis unfolding write_trace_def by blast
  next
    case (Inr res)
    show ?thesis
    proof (cases "res_json res")
      case (Inl e)
      with False c Inr have "snd (generate_pdf pf w p) = tr @ []" by (auto simp: generate_pdf_def)
      with t show ?thesis unfolding write_trace_def by blast
    next
      case (Inr data)
      obtain sp wr where s: "save_to_disk pf w data (pdf_saveTo p) ''./output.pdf'' = (sp, wr)"
        by (cases "save_to_disk pf w data (pdf_saveTo p) ''./output.pdf''") auto
      with False c \<open>r = Inr res\<close> Inr have "snd (generate_pdf pf w p) = tr @ wr"
        by (auto simp: generate_pdf_def)
      with t save_to_disk_trace [OF s] show ?thesis by blast
    qed
  qed
qed

lemma record_video_trace:
  "\<exists>tr wr. snd (record_video pf w p) = tr @ wr \<and> api_trace pf w tr \<and>
      write_trace pf w (vid_saveTo p) (''./recording.'' @ or_default (vid_format p) ''mp4'') wr"
proof (cases "no_steps (vid_steps p)")
  case True
  then have "snd (record_video pf w p) = [] @ []" by (simp add: record_video_def)
  then show ?thesis using api_trace_Nil write_trace_def by blast
next
  case False
  obtain r tr where c: "callApi pf w ''/api/v1/video'' (Some ''POST'')
               (Obj (steps_member (vid_steps p) @ opt_member ''format'' (vid_format p) @
                     vid_rest p @ [(''response_type'', Str ''json'')])) = (r, tr)"
    by (cases "callApi pf w ''/api/v1/video'' (Some ''POST'')
               (Obj (steps_member (vid_steps p) @ opt_member ''format'' (vid_format p) @
                     vid_rest p @ [(''response_type'', Str ''json'')]))") auto
  have t: "api_trace pf w tr" using c by (rule api_trace_callApi)
  show ?thesis
  proof (cases r)
    case (Inl e)
    with False c have "snd (record_video pf w p) = tr @ []" by (auto simp: record_video_def)
    with t show ?thesis unfolding write_trace_def by blast
  next
    case (Inr res)
    show ?thesis
    proof (cases "res_json res")
      case (Inl e)
      with False c Inr have "snd (record_video pf w p) = tr @ []" by (auto simp: record_video_def)
      with t show ?thesis unfolding write_trace_def by blast
    next
      case (Inr data)
      obtain sp wr where s: "save_to_disk pf w data (vid_saveTo p)
            (''./recording.'' @ or_default (vid_format p) ''mp4'') = (sp, wr)"
        by (cases "save_to_disk pf w data (vid_saveTo p)
            (''./recording.'' @ or_default (vid_format p) ''mp4'')") auto
      with False c \<open>r = Inr res\<close> Inr have "snd (record_video pf w p) = tr @ wr"
        by (auto simp: record_video_def Let_def split: sum.splits)
      with t save_to_disk_trace [OF s] show ?thesis by blast
    qed
  qed
qed

lemma api_trace_requests: "api_trace pf w tr \<Longrightarrow> length (http_requests tr) \<le> 1"
  by (auto simp: api_trace_def)

lemma api_trace_writes: "api_trace pf w tr \<Longrightarrow> file_writes tr = []"
  by (auto simp: api_trace_def)

lemma write_trace_requests: "write_trace pf w s d wr \<Longrightarrow> http_requests wr = []"
  by (auto simp: write_trace_def)

lemma call_tool_trace:
  "\<exists>tr wr. snd (call_tool pf w c) = tr @ wr \<and> api_trace pf w tr \<and>
      (wr = [] \<or> (\<exists>s d. save_target c = Some (s, d) \<and> write_trace pf w s d wr))"
proof (cases c)
  case (Take_screenshot p)
  then have "snd (call_tool pf w c) = snd (take_screenshot pf w p) @ []" by simp
  then show ?thesis using take_screenshot_trace by blast
next
  case (Generate_pdf p)
  then show ?thesis using generate_pdf_trace [of pf w p] by auto
next
  case (Create_og_image p)
  then have "snd (call_tool pf w c) = snd (create_og_image pf w p) @ []" by simp
  then show ?thesis using create_og_image_trace by blast
next
  case (Run_sequence p)
  then have "snd (call_tool pf w c) = snd (run_sequence pf w p) @ []" by simp
  then show ?thesis using run_sequence_trace by blast
next
  case (Record_video p)
  then show ?thesis using record_video_trace [of pf w p] by auto
next
  case (Inspect_page p)
  then have "snd (call_tool pf w c) = snd (inspect_page pf w p) @ []" by simp
  then show ?thesis using inspect_page_trace by blast
next
  case List_devices
  then have "snd (call_tool pf w c) = snd (list_devices pf w) @ []" by simp
  then show ?thesis using list_devices_trace by blast
next
  case Check_usage
  then have "snd (call_tool pf w c) = snd (check_usage pf w) @ []" by simp
  then show ?thesis using check_usage_trace by blast
qed

lemma write_trace_writes:
  "write_trace pf w s d wr \<Longrightarrow>
     wr = [] \<or> (\<exists>path buf. file_writes wr = [(path, buf)] \<and> safePath pf w s d = Inr path)"
  by (auto simp: write_trace_def)

section \<open>No retries\<close>

text \<open>
  Claim C5. For every tool invocation, at most one HTTP request is issued to the backend,
  whatever the parameters, the environment and the answer of the backend; in particular no
  request is issued again after a failure.
\<close>

theorem at_most_one_request: "length (http_requests (snd (call_tool pf w c))) \<le> 1"
proof (cases c)
  case (Take_screenshot p)
  then show ?thesis using api_trace_requests [OF take_screenshot_trace] by simp
next
  case (Generate_pdf p)
  then show ?thesis
    using generate_pdf_trace [of pf w p] api_trace_requests write_trace_requests
    by (auto simp: http_requests_append)
next
  case (Create_og_image p)
  then show ?thesis using api_trace_requests [OF create_og_image_trace] by simp
next
  case (Run_sequence p)
  then show ?thesis using api_trace_requests [OF run_sequence_trace] by simp
next
  case (Record_video p)
  then show ?thesis
    using record_video_trace [of pf w p] api_trace_requests write_trace_requests
    by (auto simp: http_requests_append)
next
  case (Inspect_page p)
  then show ?thesis using api_trace_requests [OF inspect_page_trace] by simp
next
  case List_devices
  then show ?thesis using api_trace_requests [OF list_devices_trace] by simp
next
  case Check_usage
  then show ?thesis using api_trace_requests [OF check_usage_trace] by simp
qed

section \<open>Local validation\<close>

lemma missing_None: "missing None"
  by (simp add: missing_def opt_str_def)

text \<open>
  Claim C1. A tool invocation whose parameters are missing all of the source fields that
  exclude one another (take_screenshot with none of url, html, markdown; generate_pdf or
  inspect_page with neither url nor html; run_sequence or record_video with absent or empty
  steps) returns a failure result, flagged as an error and with a text that explains it,
  and issues no HTTP request: the run has no event at all.
\<close>

theorem missing_source_fields_fail_locally:
  \<open>(missing (ss_url p1) \<and> missing (ss_html p1) \<and> missing (ss_markdown p1) \<longrightarrow>
      take_screenshot pf w p1 =
        (Returned (error_result ''Error: One of "url", "html", or "markdown" is required.''), [])) \<and>
   (missing (pdf_url p2) \<and> missing (pdf_html p2) \<longrightarrow>
      generate_pdf pf w p2 =
        (Returned (error_result ''Error: Either "url" or "html" is required.''), [])) \<and>
   (missing (in_url p3) \<and> missing (in_html p3) \<longrightarrow>
      inspect_page pf w p3 =
        (Returned (error_result ''Error: Either "url" or "html" is required.''), [])) \<and>
   (seq_steps p4 = None \<or> seq_steps p4 = Some [] \<longrightarrow>
      run_sequence pf w p4 =
        (Returned (error_result ''Error: "steps" must be a non-empty array.''), [])) \<and>
   (vid_steps p5 = None \<or> vid_steps p5 = Some [] \<longrightarrow>
      record_video pf w p5 =
        (Returned (error_result ''Error: "steps" must be a non-empty array.''), []))\<close>
  by (auto simp: missing_def take_screenshot_def generate_pdf_def inspect_page_def
        run_sequence_def record_video_def no_steps_def)

theorem missing_source_fields_fail_locally_witness:
  \<open>missing (ss_url \<lparr>ss_url = None, ss_html = Some [], ss_markdown = None, ss_format = Some ''png'', ss_rest = []\<rparr>) \<and>
   missing (pdf_url \<lparr>pdf_url = None, pdf_html = None, pdf_saveTo = Some ''out.pdf'', pdf_rest = []\<rparr>) \<and>
   missing (in_url \<lparr>in_url = None, in_html = None, in_rest = [(''darkMode'', Bool True)]\<rparr>) \<and>
   seq_steps \<lparr>seq_steps = Some [], seq_rest = []\<rparr> = Some [] \<and>
   vid_steps \<lparr>vid_steps = None, vid_format = None, vid_saveTo = None, vid_rest = []\<rparr> = None \<and>
   take_screenshot posix unreachable
       \<lparr>ss_url = None, ss_html = Some [], ss_markdown = None, ss_format = Some ''png'', ss_rest = []\<rparr> =
     (Returned (error_result ''Error: One of "url", "html", or "markdown" is required.''), []) \<and>
   generate_pdf posix unreachable
       \<lparr>pdf_url = None, pdf_html = None, pdf_saveTo = Some ''out.pdf'', pdf_rest = []\<rparr> =
     (Returned (error_result ''Error: Either "url" or "html" is required.''), []) \<and>
   inspect_page posix unreachable \<lparr>in_url = None, in_html = None, in_rest = [(''darkMode'', Bool True)]\<rparr> =
     (Returned (error_result ''Error: Either "url" or "html" is required.''), []) \<and>
   run_sequence posix unreachable \<lparr>seq_steps = Some [], seq_rest = []\<rparr> =
     (Returned (error_result ''Error: "steps" must be a non-empty array.''), []) \<and>
   record_video posix unreachable \<lparr>vid_steps = None, vid_format = None, vid_saveTo = None, vid_rest = []\<rparr> =
     (Returned (error_result ''Error: "steps" must be a non-empty array.''), [])\<close>
  using missing_source_fields_fail_locally
    [of "\<lparr>ss_url = None, ss_html = Some [], ss_markdown = None, ss_format = Some ''png'', ss_rest = []\<rparr>"
        posix unreachable
        "\<lparr>pdf_url = None, pdf_html = None, pdf_saveTo = Some ''out.pdf'', pdf_rest = []\<rparr>"
        "\<lparr>in_url = None, in_html = None, in_rest = [(''darkMode'', Bool True)]\<rparr>"
        "\<lparr>seq_steps = Some [], seq_rest = []\<rparr>"
        "\<lparr>vid_steps = None, vid_format = None, vid_saveTo = None, vid_rest = []\<rparr>"]
  by (simp add: missing_def opt_str_def)

section \<open>Responses that are not ok\<close>




lemma show_nat_400: "show_nat 400 = ''400''"
  by code_simp








section \<open>Writes to disk\<close>

text \<open>
  Claim C6. The bindings of the module are constants and a handler is a function of the
  environment and its parameters; what a run leaves behind is its events. Only
  generate_pdf and record_video write to disk: every other tool writes no file, and the two
  write at most one file, at the path that safePath returned.
\<close>

theorem only_pdf_and_video_write:
  "((\<forall>p. c \<noteq> Generate_pdf p) \<and> (\<forall>p. c \<noteq> Record_video p) \<longrightarrow>
      file_writes (snd (call_tool pf w c)) = []) \<and>
   length (file_writes (snd (call_tool pf w c))) \<le> 1 \<and>
   (\<forall>path buf. (path, buf) \<in> set (file_writes (snd (call_tool pf w c))) \<longrightarrow>
      (\<exists>s d. save_target c = Some (s, d) \<and> safePath pf w s d = Inr path))"
proof -
  obtain tr wr where t: "snd (call_tool pf w c) = tr @ wr" "api_trace pf w tr"
      "wr = [] \<or> (\<exists>s d. save_target c = Some (s, d) \<and> write_trace pf w s d wr)"
    using call_tool_trace by blast
  have fw: "file_writes (snd (call_tool pf w c)) = file_writes wr"
    using t(1,2) by (simp add: file_writes_append api_trace_writes)
  have a: "file_writes wr = []" if "(\<forall>p. c \<noteq> Generate_pdf p) \<and> (\<forall>p. c \<noteq> Record_video p)"
  proof -
    from that have "save_target c = None" by (cases c) auto
    with t(3) show ?thesis by auto
  qed
  have b: "length (file_writes wr) \<le> 1"
    using t(3) by (auto dest: write_trace_writes)
  have d: "\<exists>s d. save_target c = Some (s, d) \<and> safePath pf w s d = Inr path"
    if "(path, buf) \<in> set (file_writes wr)" for path buf
    using t(3) that by (auto dest!: write_trace_writes)
  show ?thesis unfolding fw using a b d by blast
qed

theorem only_pdf_and_video_write_witness:
  "(\<forall>p. Check_usage \<noteq> Generate_pdf p) \<and> (\<forall>p. Check_usage \<noteq> Record_video p) \<and>
   file_writes (snd (call_tool posix (backend pdf_data) Check_usage)) = [] \<and>
   (''/home/user/project/out/report.pdf'', ''%PDF-1.4'') \<in>
      set (file_writes (snd (call_tool posix (backend pdf_data)
                               (Generate_pdf (pdf_call (Some ''out/report.pdf'')))))) \<and>
   (\<exists>s d. save_target (Generate_pdf (pdf_call (Some ''out/report.pdf''))) = Some (s, d) \<and>
          safePath posix (backend pdf_data) s d = Inr ''/home/user/project/out/report.pdf'')"
proof -
  have w: "(''/home/user/project/out/report.pdf'', ''%PDF-1.4'') \<in>
      set (file_writes (snd (call_tool posix (backend pdf_data)
                               (Generate_pdf (pdf_call (Some ''out/report.pdf''))))))"
    by code_simp
  from only_pdf_and_video_write [of Check_usage posix "backend pdf_data"]
    only_pdf_and_video_write [of "Generate_pdf (pdf_call (Some ''out/report.pdf''))" posix
      "backend pdf_data"] w
  show ?thesis by blast
qed

text \<open>
  Claim C3. When the saveTo parameter of generate_pdf or record_video resolves to a path
  outside the working directory, safePath throws and the run writes no file.
\<close>

theorem outside_path_not_written:
  "(outside_cwd pf w (pdf_saveTo p) ''./output.pdf'' \<longrightarrow>
      (\<exists>e. safePath pf w (pdf_saveTo p) ''./output.pdf'' = Inl e) \<and>
      file_writes (snd (generate_pdf pf w p)) = []) \<and>
   (outside_cwd pf w (vid_saveTo q) (''./recording.'' @ or_default (vid_format q) ''mp4'') \<longrightarrow>
      (\<exists>e. safePath pf w (vid_saveTo q) (''./recording.'' @ or_default (vid_format q) ''mp4'') =
            Inl e) \<and>
      file_writes (snd (record_video pf w q)) = [])"
proof -
  have rej: "\<exists>e. safePath pf w s d = Inl e" if "outside_cwd pf w s d" for s d
    using that by (auto simp: outside_cwd_def safePath_def Let_def)
  have nowrite: "file_writes (tr @ wr) = []"
    if "api_trace pf w tr" "write_trace pf w s d wr" "outside_cwd pf w s d" for tr wr s d
  proof -
    from rej [OF that(3)] that(2) have "wr = []" by (auto simp: write_trace_def)
    with that(1) show ?thesis by (simp add: api_trace_writes)
  qed
  have 1: "file_writes (snd (generate_pdf pf w p)) = []"
    if "outside_cwd pf w (pdf_saveTo p) ''./output.pdf''"
    using generate_pdf_trace [of pf w p] nowrite that by auto
  have 2: "file_writes (snd (record_video pf w q)) = []"
    if "outside_cwd pf w (vid_saveTo q) (''./recording.'' @ or_default (vid_format q) ''mp4'')"
    using record_video_trace [of pf w q] nowrite that by auto
  show ?thesis using rej 1 2 by blast
qed

theorem outside_path_not_written_witness:
  "outside_cwd posix (backend pdf_data) (pdf_saveTo (pdf_call (Some ''/etc/cron.d/malicious'')))
     ''./output.pdf'' \<and>
   outside_cwd posix (backend (video_data 1000 2500))
     (vid_saveTo (video_call (Some ''../../.ssh/authorized_keys'')))
     (''./recording.'' @ or_default (vid_format (video_call (Some ''../../.ssh/authorized_keys''))) ''mp4'') \<and>
   file_writes (snd (generate_pdf posix (backend pdf_data)
                       (pdf_call (Some ''/etc/cron.d/malicious'')))) = [] \<and>
   file_writes (snd (record_video posix (backend (video_data 1000 2500))
                       (video_call (Some ''../../.ssh/authorized_keys'')))) = []"
proof -
  have a: "outside_cwd posix (backend pdf_data)
             (pdf_saveTo (pdf_call (Some ''/etc/cron.d/malicious''))) ''./output.pdf''"
    by code_simp
  have b: "outside_cwd posix (backend (video_data 1000 2500))
     (vid_saveTo (video_call (Some ''../../.ssh/authorized_keys'')))
     (''./recording.'' @ or_default (vid_format (video_call (Some ''../../.ssh/authorized_keys''))) ''mp4'')"
    by code_simp
  from outside_path_not_written [of posix "backend pdf_data"
      "pdf_call (Some ''/etc/cron.d/malicious'')" "video_call None"] a
  have "file_writes (snd (generate_pdf posix (backend pdf_data)
                       (pdf_call (Some ''/etc/cron.d/malicious'')))) = []" by blast
  moreover from outside_path_not_written [of posix "backend (video_data 1000 2500)"
      "pdf_call None" "video_call (Some ''../../.ssh/authorized_keys'')"] b
  have "file_writes (snd (record_video posix (backend (video_data 1000 2500))
                       (video_call (Some ''../../.ssh/authorized_keys'')))) = []" by blast
  ultimately show ?thesis using a b by blast
qed

section \<open>The API key\<close>

lemma api_request_headers:
  "truthy (API_KEY w) \<Longrightarrow>
     map_of (req_headers (api_request pf w ep m b)) ''x-api-key'' = PAGEBOLT_API_KEY w \<and>
     (req_body (api_request pf w ep m b) \<noteq> None \<longrightarrow>
        map_of (req_headers (api_request pf w ep m b)) ''Content-Type'' = Some ''application/json'')"
  by (cases "PAGEBOLT_API_KEY w") (auto simp: api_request_def API_KEY_def opt_str_def Let_def)

text \<open>
  Claim C7. Every HTTP request that a tool issues carries the header \<^verbatim>\<open>x-api-key\<close> with
  the configured key as its value, and a request with a body also carries
  \<^verbatim>\<open>Content-Type: application/json\<close>.
\<close>

theorem requests_carry_api_key:
  "HttpRequest req \<in> set (snd (call_tool pf w c)) \<longrightarrow>
     (\<exists>k. PAGEBOLT_API_KEY w = Some k \<and> map_of (req_headers req) ''x-api-key'' = Some k) \<and>
     (req_body req \<noteq> None \<longrightarrow>
        map_of (req_headers req) ''Content-Type'' = Some ''application/json'')"
proof
  assume r: "HttpRequest req \<in> set (snd (call_tool pf w c))"
  obtain tr wr where t: "snd (call_tool pf w c) = tr @ wr" "api_trace pf w tr"
      "wr = [] \<or> (\<exists>s d. save_target c = Some (s, d) \<and> write_trace pf w s d wr)"
    using call_tool_trace by blast
  have "HttpRequest req \<notin> set wr"
    using t(3) by (auto simp: write_trace_def)
  with r t(1) have "HttpRequest req \<in> set tr" by auto
  with t(2) obtain ep m b where k: "truthy (API_KEY w)" and q: "req = api_request pf w ep m b"
    by (auto simp: api_trace_def)
  from k obtain key where s: "PAGEBOLT_API_KEY w = Some key"
    by (cases "PAGEBOLT_API_KEY w") (auto simp: API_KEY_def opt_str_def)
  show "(\<exists>k. PAGEBOLT_API_KEY w = Some k \<and> map_of (req_headers req) ''x-api-key'' = Some k) \<and>
     (req_body req \<noteq> None \<longrightarrow>
        map_of (req_headers req) ''Content-Type'' = Some ''application/json'')"
    using api_request_headers [OF k, of pf ep m b] s unfolding q by simp
qed

theorem requests_carry_api_key_witness:
  "HttpRequest (api_request posix (backend pdf_data) ''/api/v1/pdf'' (Some ''POST'')
       (Obj [(''url'', Str ''https://example.com''), (''landscape'', Bool True),
             (''response_type'', Str ''json'')]))
     \<in> set (snd (call_tool posix (backend pdf_data) (Generate_pdf (pdf_call None)))) \<and>
   req_body (api_request posix (backend pdf_data) ''/api/v1/pdf'' (Some ''POST'')
       (Obj [(''url'', Str ''https://example.com''), (''landscape'', Bool True),
             (''response_type'', Str ''json'')])) \<noteq> None \<and>
   map_of (req_headers (api_request posix (backend pdf_data) ''/api/v1/pdf'' (Some ''POST'')
       (Obj [(''url'', Str ''https://example.com''), (''landscape'', Bool True),
             (''response_type'', Str ''json'')]))) ''x-api-key'' = Some ''pf_live_0123'' \<and>
   map_of (req_headers (api_request posix (backend pdf_data) ''/api/v1/pdf'' (Some ''POST'')
       (Obj [(''url'', Str ''https://example.com''), (''landscape'', Bool True),
             (''response_type'', Str ''json'')]))) ''Content-Type'' = Some ''application/json''"
proof -
  have h: "HttpRequest (api_request posix (backend pdf_data) ''/api/v1/pdf'' (Some ''POST'')
       (Obj [(''url'', Str ''https://example.com''), (''landscape'', Bool True),
             (''response_type'', Str ''json'')]))
     \<in> set (snd (call_tool posix (backend pdf_data) (Generate_pdf (pdf_call None))))"
    by code_simp
  have b: "req_body (api_request posix (backend pdf_data) ''/api/v1/pdf'' (Some ''POST'')
       (Obj [(''url'', Str ''https://example.com''), (''landscape'', Bool True),
             (''response_type'', Str ''json'')])) \<noteq> None"
    by (simp add: api_request_def)
  have k: "PAGEBOLT_API_KEY (backend pdf_data) = Some ''pf_live_0123''"
    by (simp add: answering_def backend_def)
  from requests_carry_api_key [of "api_request posix (backend pdf_data) ''/api/v1/pdf'' (Some ''POST'')
       (Obj [(''url'', Str ''https://example.com''), (''landscape'', Bool True),
             (''response_type'', Str ''json'')])" posix "backend pdf_data"
       "Generate_pdf (pdf_call None)"] h b k
  show ?thesis by simp
qed

lemma callApi_no_key:
  "\<not> truthy (API_KEY w) \<Longrightarrow>
     callApi pf w ep m b =
       (Inl (Error (''PAGEBOLT_API_KEY environment variable is required. '' @
                    ''Get your free API key at https://pagebolt.dev'')), [])"
  by (simp add: callApi_def requireApiKey_def)

text \<open>
  Claim C8. When the environment variable PAGEBOLT_API_KEY is unset or empty, every tool
  invocation fails and no HTTP request is issued: requireApiKey throws at the start of
  callApi, before the call of fetch.
\<close>

theorem no_key_no_request:
  "PAGEBOLT_API_KEY w = None \<or> PAGEBOLT_API_KEY w = Some [] \<longrightarrow>
     snd (call_tool pf w c) = [] \<and> failed (fst (call_tool pf w c)) \<and>
     fst (callApi pf w ep m b) =
       Inl (Error (''PAGEBOLT_API_KEY environment variable is required. '' @
                   ''Get your free API key at https://pagebolt.dev''))"
proof
  assume "PAGEBOLT_API_KEY w = None \<or> PAGEBOLT_API_KEY w = Some []"
  then have k: "\<not> truthy (API_KEY w)" by (auto simp: API_KEY_def opt_str_def)
  have "snd (call_tool pf w c) = [] \<and> failed (fst (call_tool pf w c))"
  proof (cases c)
    case (Take_screenshot p)
    then show ?thesis
      by (simp add: take_screenshot_def callApi_no_key [OF k] error_result_def)
  next
    case (Generate_pdf p)
    then show ?thesis
      by (simp add: generate_pdf_def callApi_no_key [OF k] error_result_def)
  next
    case (Create_og_image p)
    then show ?thesis
      by (simp add: create_og_image_def callApi_no_key [OF k] error_result_def)
  next
    case (Run_sequence p)
    then show ?thesis
      by (simp add: run_sequence_def callApi_no_key [OF k] error_result_def)
  next
    case (Record_video p)
    then show ?thesis
      by (simp add: record_video_def callApi_no_key [OF k] error_result_def)
  next
    case (Inspect_page p)
    then show ?thesis
      by (simp add: inspect_page_def callApi_no_key [OF k] error_result_def)
  next
    case List_devices
    then show ?thesis
      by (simp add: list_devices_def callApi_no_key [OF k] error_result_def)
  next
    case Check_usage
    then show ?thesis
      by (simp add: check_usage_def callApi_no_key [OF k] error_result_def)
  qed
  then show "snd (call_tool pf w c) = [] \<and> failed (fst (call_tool pf w c)) \<and>
     fst (callApi pf w ep m b) =
       Inl (Error (''PAGEBOLT_API_KEY environment variable is required. '' @
                   ''Get your free API key at https://pagebolt.dev''))"
    by (simp add: callApi_no_key [OF k])
qed

theorem no_key_no_request_witness:
  "(PAGEBOLT_API_KEY (backend pdf_data\<lparr>PAGEBOLT_API_KEY := Some []\<rparr>) = None \<or>
    PAGEBOLT_API_KEY (backend pdf_data\<lparr>PAGEBOLT_API_KEY := Some []\<rparr>) = Some []) \<and>
   snd (call_tool posix (backend pdf_data\<lparr>PAGEBOLT_API_KEY := Some []\<rparr>)
          (Generate_pdf (pdf_call None))) = [] \<and>
   failed (fst (call_tool posix (backend pdf_data\<lparr>PAGEBOLT_API_KEY := Some []\<rparr>)
                  (Generate_pdf (pdf_call None))))"
  using no_key_no_request [of "backend pdf_data\<lparr>PAGEBOLT_API_KEY := Some []\<rparr>" posix
      "Generate_pdf (pdf_call None)" "''/api/v1/pdf''" "Some ''POST''" Undefined]
  by simp

section \<open>The usage percentage\<close>



lemma Number_toString_safe:
  "is_safe_integer q \<Longrightarrow> Number_toString pf (Fin q) = show_int \<lfloor>q\<rfloor>"
  by simp



text \<open>
  When both members are numbers, \<^verbatim>\<open>usage.limit > 0\<close> is the comparison of their values:
  there is no division by a limit that is zero or negative.
\<close>

lemma usage_pct_numbers:
  assumes "getprop pf usage ''limit'' = Inr (Num l)"
    and "getprop pf usage ''current'' = Inr (Num c)"
  shows "usage_pct pf usage =
           Inr (if 0 < l then Math_round (js_mul (js_div (Fin c) (Fin l)) (Fin 100)) else Fin 0)"
  using assms by (simp add: usage_pct_def bindE_def ToNumber_def)












section \<open>Failure of the disk write\<close>

lemma pdf_result_not_saved:
  assumes "\<not> isl (pdf_result pf data (Str path))"
  shows "\<exists>blob t. pdf_result pf data Null =
            Inr (ok_result [Resource ''pagebolt://pdf/output.pdf'' ''application/pdf'' blob, Text t]) \<and>
          getprop pf data ''data'' = Inr blob \<and> contains t not_saved"
proof -
  from assms obtain r0 where "pdf_result pf data (Str path) = Inr r0"
    unfolding not_isl by blast
  then obtain blob size_bytes duration_ms x y where
    b: "getprop pf data ''data'' = Inr blob"
    and s: "getprop pf data ''size_bytes'' = Inr size_bytes"
    and d: "getprop pf data ''duration_ms'' = Inr duration_ms"
    and t: "template pf [Lit newline, Lit ''  Size: '', Val size_bytes,
                           Lit ('' bytes'' @ newline), Lit ''  Duration: '', Val duration_ms,
                           Lit ''ms''] = Inr y"
    unfolding pdf_result_def Let_def bindE_Inr template_append_Inr by blast
  have n: "template pf ([Lit (''PDF generated successfully.'' @ newline)] @
             [Lit (''  File: '' @ not_saved)]) =
           Inr ((''PDF generated successfully.'' @ newline @ ''  File: '') @ not_saved @ [])"
    by (simp add: bindE_def)
  have "template pf (([Lit (''PDF generated successfully.'' @ newline)] @
             [Lit (''  File: '' @ not_saved)]) @
            [Lit newline, Lit ''  Size: '', Val size_bytes,
                           Lit ('' bytes'' @ newline), Lit ''  Duration: '', Val duration_ms,
                           Lit ''ms'']) =
        Inr (((''PDF generated successfully.'' @ newline @ ''  File: '') @ not_saved @ []) @ y)"
    unfolding template_append [of pf "[Lit (''PDF generated successfully.'' @ newline)] @
             [Lit (''  File: '' @ not_saved)]"] n t by (simp add: bindE_def)
  then have "pdf_result pf data Null =
     Inr (ok_result [Resource ''pagebolt://pdf/output.pdf'' ''application/pdf'' blob,
                     Text (((''PDF generated successfully.'' @ newline @ ''  File: '') @ not_saved @ []) @ y)])"
    unfolding pdf_result_def Let_def using b s d by (simp add: bindE_def)
  moreover have "contains (((''PDF generated successfully.'' @ newline @ ''  File: '') @ not_saved @ []) @ y) not_saved"
    using contains_append [of "''PDF generated successfully.'' @ newline @ ''  File: ''" not_saved y]
    by simp
  ultimately show ?thesis using b by blast
qed


lemma video_result_not_saved:
  assumes "\<not> isl (video_result pf ext data (Str path))"
  shows "\<exists>blob t. video_result pf ext data Null =
            Inr (ok_result [Resource (''pagebolt://video/recording.'' @ ext) (videoMimeType ext) blob,
                            Text t]) \<and>
          getprop pf data ''data'' = Inr blob \<and> contains t not_saved"
proof -
  from assms obtain r0 where "video_result pf ext data (Str path) = Inr r0"
    unfolding not_isl by blast
  then obtain duration_ms durationSec blob t1 format t2 size_bytes kb frames steps_completed
      total_steps t3 usage video_cost t4 remaining t5 where
    a1: "getprop pf data ''duration_ms'' = Inr duration_ms"
    and a2: "quotient_toFixed1 pf duration_ms 1000 = Inr durationSec"
    and a3: "getprop pf data ''data'' = Inr blob"
    and a5: "getprop pf data ''format'' = Inr format"
    and a6: "template pf [Lit ''  Format:   '', Val format, Lit newline] = Inr t2"
    and a7: "getprop pf data ''size_bytes'' = Inr size_bytes"
    and a8: "quotient_toFixed1 pf size_bytes 1024 = Inr kb"
    and a9: "getprop pf data ''frames'' = Inr frames"
    and a10: "getprop pf data ''steps_completed'' = Inr steps_completed"
    and a11: "getprop pf data ''total_steps'' = Inr total_steps"
    and a12: "template pf [Lit ''  Size:     '', Lit kb, Lit ('' KB'' @ newline),
                         Lit ''  Duration: '', Lit durationSec, Lit (''s'' @ newline),
                         Lit ''  Frames:   '', Val frames, Lit newline,
                         Lit ''  Steps:    '', Val steps_completed, Lit ''/'', Val total_steps,
                         Lit ('' completed'' @ newline)] = Inr t3"
    and a13: "getprop pf data ''usage'' = Inr usage"
    and a14: "getprop pf usage ''video_cost'' = Inr video_cost"
    and a15: "template pf [Lit ''  Cost:     '', Val video_cost,
                         Lit ('' API requests'' @ newline)] = Inr t4"
    and a16: "getprop pf usage ''remaining'' = Inr remaining"
    and a17: "template pf [Lit ''  Remaining: '', Val remaining, Lit '' requests''] = Inr t5"
    unfolding video_result_def Let_def bindE_Inr by blast
  have n: "template pf ([Lit (''Video recorded successfully.'' @ newline)] @
             [Lit (''  File:     '' @ not_saved @ newline)]) =
           Inr ((''Video recorded successfully.'' @ newline @ ''  File:     '') @ not_saved @ newline)"
    by (simp add: bindE_def)
  have "video_result pf ext data Null =
     Inr (ok_result [Resource (''pagebolt://video/recording.'' @ ext) (videoMimeType ext) blob,
                     Text (((''Video recorded successfully.'' @ newline @ ''  File:     '') @
                            not_saved @ newline) @ t2 @ t3 @ t4 @ t5)])"
    unfolding video_result_def Let_def
    using a1 a2 a3 a5 a6 a7 a8 a9 a10 a11 a12 a13 a14 a15 a16 a17 n
    by (simp add: bindE_def)
  moreover have "contains (((''Video recorded successfully.'' @ newline @ ''  File:     '') @
                            not_saved @ newline) @ t2 @ t3 @ t4 @ t5) not_saved"
    using contains_append [of "''Video recorded successfully.'' @ newline @ ''  File:     ''"
        not_saved "newline @ t2 @ t3 @ t4 @ t5"]
    by simp
  ultimately show ?thesis using a3 by blast
qed

lemma save_to_disk_fails:
  assumes "disk_write_fails pf w data s d"
  shows "fst (save_to_disk pf w data s d) = Null"
proof (cases "safePath pf w s d")
  case (Inl e)
  then show ?thesis by (simp add: save_to_disk_def)
next
  case (Inr outputPath)
  with assms obtain blob buffer e where
    "getprop pf data ''data'' = Inr blob" "Buffer_from_base64 pf blob = Inr buffer"
    "writeFileSync w outputPath buffer = Some e"
    unfolding disk_write_fails_def by auto
  with Inr show ?thesis by (simp add: save_to_disk_def bindE_def)
qed

text \<open>
  Claim C9. For generate_pdf and record_video, a failure of the write to disk, the
  rejection of the path by safePath included, does not make the result an error. When
  safePath rejects the path or the write throws, and the response of the backend is one
  for which the handler returns a result when the file is saved, the handler returns a
  result that is not flagged as an error, with the payload of the response as an embedded
  resource and a text that says that the file was not saved.
\<close>

theorem disk_failure_is_not_an_error:
  "truthy (API_KEY w) \<and> (\<forall>req. fetch w req = Responded res) \<and> res_ok res \<and>
   json_body res = Inr data \<longrightarrow>
     (\<not> (missing (pdf_url p) \<and> missing (pdf_html p)) \<and>
      disk_write_fails pf w data (pdf_saveTo p) ''./output.pdf'' \<and>
      \<not> isl (pdf_result pf data (Str path)) \<longrightarrow>
        (\<exists>blob t. fst (generate_pdf pf w p) =
             Returned \<lparr>content = [Resource ''pagebolt://pdf/output.pdf'' ''application/pdf'' blob,
                                  Text t],
                       isError = False\<rparr> \<and>
           \<not> failed (fst (generate_pdf pf w p)) \<and>
           getprop pf data ''data'' = Inr blob \<and> contains t not_saved)) \<and>
     (\<not> no_steps (vid_steps q) \<and>
      disk_write_fails pf w data (vid_saveTo q)
        (''./recording.'' @ or_default (vid_format q) ''mp4'') \<and>
      \<not> isl (video_result pf (or_default (vid_format q) ''mp4'') data (Str path)) \<longrightarrow>
        (\<exists>blob t. fst (record_video pf w q) =
             Returned \<lparr>content = [Resource (''pagebolt://video/recording.'' @
                                             or_default (vid_format q) ''mp4'')
                                     (videoMimeType (or_default (vid_format q) ''mp4'')) blob,
                                  Text t],
                       isError = False\<rparr> \<and>
           \<not> failed (fst (record_video pf w q)) \<and>
           getprop pf data ''data'' = Inr blob \<and> contains t not_saved))"
proof (intro conjI impI)
  assume h: "truthy (API_KEY w) \<and> (\<forall>req. fetch w req = Responded res) \<and> res_ok res \<and>
    json_body res = Inr data"
    and g: "\<not> (missing (pdf_url p) \<and> missing (pdf_html p)) \<and>
      disk_write_fails pf w data (pdf_saveTo p) ''./output.pdf'' \<and>
      \<not> isl (pdf_result pf data (Str path))"
  from h have c: "callApi pf w ep m b = (Inr res, [HttpRequest (api_request pf w ep m b)])"
    for ep m b by (simp add: callApi_ok)
  from g save_to_disk_fails
  have "fst (save_to_disk pf w data (pdf_saveTo p) ''./output.pdf'') = Null" by blast
  then obtain wr where sv: "save_to_disk pf w data (pdf_saveTo p) ''./output.pdf'' = (Null, wr)"
    by (cases "save_to_disk pf w data (pdf_saveTo p) ''./output.pdf''") auto
  from g have v: "\<not> (\<not> truthy (opt_str (pdf_url p)) \<and> \<not> truthy (opt_str (pdf_html p)))"
    by (simp add: missing_def)
  have "fst (generate_pdf pf w p) = to_outcome (pdf_result pf data Null)"
    using v h sv by (auto simp: generate_pdf_def c res_json_def)
  moreover from g pdf_result_not_saved obtain blob t where
    "pdf_result pf data Null =
       Inr (ok_result [Resource ''pagebolt://pdf/output.pdf'' ''application/pdf'' blob, Text t])"
    "getprop pf data ''data'' = Inr blob" "contains t not_saved"
    by blast
  ultimately show "\<exists>blob t. fst (generate_pdf pf w p) =
             Returned \<lparr>content = [Resource ''pagebolt://pdf/output.pdf'' ''application/pdf'' blob,
                                  Text t],
                       isError = False\<rparr> \<and>
           \<not> failed (fst (generate_pdf pf w p)) \<and>
           getprop pf data ''data'' = Inr blob \<and> contains t not_saved"
    by (auto simp: to_outcome_def ok_result_def)
next
  assume h: "truthy (API_KEY w) \<and> (\<forall>req. fetch w req = Responded res) \<and> res_ok res \<and>
    json_body res = Inr data"
    and g: "\<not> no_steps (vid_steps q) \<and>
      disk_write_fails pf w data (vid_saveTo q)
        (''./recording.'' @ or_default (vid_format q) ''mp4'') \<and>
      \<not> isl (video_result pf (or_default (vid_format q) ''mp4'') data (Str path))"
  from h have c: "callApi pf w ep m b = (Inr res, [HttpRequest (api_request pf w ep m b)])"
    for ep m b by (simp add: callApi_ok)
  from g save_to_disk_fails
  have "fst (save_to_disk pf w data (vid_saveTo q)
             (''./recording.'' @ or_default (vid_format q) ''mp4'')) = Null" by blast
  then obtain wr where sv: "save_to_disk pf w data (vid_saveTo q)
             (''./recording.'' @ or_default (vid_format q) ''mp4'') = (Null, wr)"
    by (cases "save_to_disk pf w data (vid_saveTo q)
             (''./recording.'' @ or_default (vid_format q) ''mp4'')") auto
  from g video_result_not_saved obtain blob t where
    r: "video_result pf (or_default (vid_format q) ''mp4'') data Null =
       Inr (ok_result [Resource (''pagebolt://video/recording.'' @
                                            or_default (vid_format q) ''mp4'')
                                    (videoMimeType (or_default (vid_format q) ''mp4'')) blob,
                                  Text t])"
    and b: "getprop pf data ''data'' = Inr blob" "contains t not_saved"
    by blast
  have "fst (record_video pf w q) =
      Returned (ok_result [Resource (''pagebolt://video/recording.'' @
                                            or_default (vid_format q) ''mp4'')
                                    (videoMimeType (or_default (vid_format q) ''mp4'')) blob,
                                  Text t])"
    using g h sv r by (simp add: record_video_def c res_json_def Let_def)
  with b show "\<exists>blob t. fst (record_video pf w q) =
             Returned \<lparr>content = [Resource (''pagebolt://video/recording.'' @
                                             or_default (vid_format q) ''mp4'')
                                     (videoMimeType (or_default (vid_format q) ''mp4'')) blob,
                                  Text t],
                       isError = False\<rparr> \<and>
           \<not> failed (fst (record_video pf w q)) \<and>
           getprop pf data ''data'' = Inr blob \<and> contains t not_saved"
    by (auto simp: ok_result_def)
qed

lemma pdf_safePath_default:
  "safePath posix (read_only (backend pdf_data)) None ''./output.pdf'' =
     Inr ''/home/user/project/output.pdf''"
  by code_simp

lemma pdf_buffer: "Buffer_from_base64 posix (Str ''JVBERi0xLjQ='') = Inr ''%PDF-1.4''"
  by code_simp

lemma video_safePath_rejected:
  "isl (safePath posix (backend (video_data 1000 2500)) (Some ''../../.ssh/authorized_keys'')
          ''./recording.mp4'')"
  by code_simp

lemma pdf_formattable:
  "\<not> isl (pdf_result posix pdf_data (Str ''/home/user/project/output.pdf''))"
  by code_simp

lemma video_formattable:
  "\<not> isl (video_result posix ''mp4'' (video_data 1000 2500)
            (Str ''/home/user/project/recording.mp4''))"
  by code_simp

lemma pdf_read_only_run:
  "generate_pdf posix (read_only (backend pdf_data)) (pdf_call None) =
     (Returned \<lparr>content = [Resource ''pagebolt://pdf/output.pdf'' ''application/pdf''
                             (Str ''JVBERi0xLjQ=''),
                           Text (''PDF generated successfully.'' @ newline @
                                 ''  File: '' @ not_saved @ newline @
                                 ''  Size: 8 bytes'' @ newline @
                                 ''  Duration: 812ms'')],
                isError = False\<rparr>,
      [HttpRequest (api_request posix (read_only (backend pdf_data)) ''/api/v1/pdf''
                      (Some ''POST'')
                      (Obj [(''url'', Str ''https://example.com''), (''landscape'', Bool True),
                            (''response_type'', Str ''json'')])),
       FileWrite ''/home/user/project/output.pdf'' ''%PDF-1.4''])"
  by code_simp

theorem disk_failure_is_not_an_error_witness:
  "truthy (API_KEY (read_only (backend pdf_data))) \<and>
   (\<forall>req. fetch (read_only (backend pdf_data)) req =
            Responded (json_response 200 ''OK'' pdf_data)) \<and>
   res_ok (json_response 200 ''OK'' pdf_data) \<and>
   json_body (json_response 200 ''OK'' pdf_data) = Inr pdf_data \<and>
   \<not> (missing (pdf_url (pdf_call None)) \<and> missing (pdf_html (pdf_call None))) \<and>
   safePath posix (read_only (backend pdf_data)) (pdf_saveTo (pdf_call None)) ''./output.pdf'' =
     Inr ''/home/user/project/output.pdf'' \<and>
   writeFileSync (read_only (backend pdf_data)) ''/home/user/project/output.pdf'' ''%PDF-1.4'' =
     Some (Error ''EROFS: read-only file system'') \<and>
   disk_write_fails posix (read_only (backend pdf_data)) pdf_data (pdf_saveTo (pdf_call None))
     ''./output.pdf'' \<and>
   \<not> isl (pdf_result posix pdf_data (Str ''/home/user/project/output.pdf'')) \<and>
   (\<exists>t. fst (generate_pdf posix (read_only (backend pdf_data)) (pdf_call None)) =
        Returned \<lparr>content = [Resource ''pagebolt://pdf/output.pdf'' ''application/pdf''
                                (Str ''JVBERi0xLjQ=''),
                              Text t],
                  isError = False\<rparr> \<and>
      contains t not_saved) \<and>
   \<not> failed (fst (generate_pdf posix (read_only (backend pdf_data)) (pdf_call None))) \<and>
   truthy (API_KEY (backend (video_data 1000 2500))) \<and>
   (\<forall>req. fetch (backend (video_data 1000 2500)) req =
            Responded (json_response 200 ''OK'' (video_data 1000 2500))) \<and>
   \<not> no_steps (vid_steps (video_call (Some ''../../.ssh/authorized_keys''))) \<and>
   isl (safePath posix (backend (video_data 1000 2500))
          (vid_saveTo (video_call (Some ''../../.ssh/authorized_keys''))) ''./recording.mp4'') \<and>
   disk_write_fails posix (backend (video_data 1000 2500)) (video_data 1000 2500)
     (vid_saveTo (video_call (Some ''../../.ssh/authorized_keys'')))
     (''./recording.'' @
      or_default (vid_format (video_call (Some ''../../.ssh/authorized_keys''))) ''mp4'') \<and>
   \<not> isl (video_result posix ''mp4'' (video_data 1000 2500)
            (Str ''/home/user/project/recording.mp4'')) \<and>
   (\<exists>t. fst (record_video posix (backend (video_data 1000 2500))
                (video_call (Some ''../../.ssh/authorized_keys''))) =
        Returned \<lparr>content = [Resource ''pagebolt://video/recording.mp4'' ''video/mp4''
                                (Str ''AAAAIGZ0eXA=''),
                              Text t],
                  isError = False\<rparr> \<and>
      contains t not_saved) \<and>
   \<not> failed (fst (record_video posix (backend (video_data 1000 2500))
                    (video_call (Some ''../../.ssh/authorized_keys''))))"
proof -
  let ?w = "read_only (backend pdf_data)"
  let ?v = "backend (video_data 1000 2500)"
  let ?q = "video_call (Some ''../../.ssh/authorized_keys'')"
  have h1: "truthy (API_KEY ?w) \<and>
     (\<forall>req. fetch ?w req = Responded (json_response 200 ''OK'' pdf_data)) \<and>
     res_ok (json_response 200 ''OK'' pdf_data) \<and>
     json_body (json_response 200 ''OK'' pdf_data) = Inr pdf_data"
    by (simp add: read_only_def backend_def answering_def API_KEY_def opt_str_def
          json_response_def res_ok_def)
  have h2: "\<not> (missing (pdf_url (pdf_call None)) \<and> missing (pdf_html (pdf_call None)))"
    by (simp add: missing_def pdf_call_def opt_str_def)
  have s1: "safePath posix ?w (pdf_saveTo (pdf_call None)) ''./output.pdf'' =
       Inr ''/home/user/project/output.pdf''"
    using pdf_safePath_default by (simp add: pdf_call_def)
  have w1: "writeFileSync ?w ''/home/user/project/output.pdf'' ''%PDF-1.4'' =
       Some (Error ''EROFS: read-only file system'')"
    by (simp add: read_only_def)
  have b1: "getprop posix pdf_data ''data'' = Inr (Str ''JVBERi0xLjQ='')"
    by (simp add: pdf_data_def getprop_def get_def)
  from s1 b1 pdf_buffer w1
  have d1: "disk_write_fails posix ?w pdf_data (pdf_saveTo (pdf_call None)) ''./output.pdf''"
    unfolding disk_write_fails_def by blast
  note t1 = disk_failure_is_not_an_error [of ?w "json_response 200 ''OK'' pdf_data" pdf_data
      "pdf_call None" posix "''/home/user/project/output.pdf''" ?q]
  from t1 h1 h2 d1 pdf_formattable obtain blob t where
    r1: "fst (generate_pdf posix ?w (pdf_call None)) =
        Returned \<lparr>content = [Resource ''pagebolt://pdf/output.pdf'' ''application/pdf'' blob,
                              Text t],
                  isError = False\<rparr>"
    "\<not> failed (fst (generate_pdf posix ?w (pdf_call None)))"
    "getprop posix pdf_data ''data'' = Inr blob" "contains t not_saved"
    by blast
  with b1 have c1: "\<exists>t. fst (generate_pdf posix ?w (pdf_call None)) =
        Returned \<lparr>content = [Resource ''pagebolt://pdf/output.pdf'' ''application/pdf''
                                (Str ''JVBERi0xLjQ=''),
                              Text t],
                  isError = False\<rparr> \<and>
      contains t not_saved"
    by auto
  have h3: "truthy (API_KEY ?v) \<and>
     (\<forall>req. fetch ?v req = Responded (json_response 200 ''OK'' (video_data 1000 2500))) \<and>
     res_ok (json_response 200 ''OK'' (video_data 1000 2500)) \<and>
     json_body (json_response 200 ''OK'' (video_data 1000 2500)) = Inr (video_data 1000 2500)"
    by (simp add: backend_def answering_def API_KEY_def opt_str_def
          json_response_def res_ok_def)
  have h4: "\<not> no_steps (vid_steps ?q)"
    by (simp add: video_call_def no_steps_def)
  have f: "or_default (vid_format ?q) ''mp4'' = ''mp4''" "vid_saveTo ?q = Some ''../../.ssh/authorized_keys''"
    by (simp_all add: video_call_def or_default_def)
  have s2: "isl (safePath posix ?v (vid_saveTo ?q) ''./recording.mp4'')"
    using video_safePath_rejected by (simp add: f)
  then have d2: "disk_write_fails posix ?v (video_data 1000 2500) (vid_saveTo ?q)
     (''./recording.'' @ or_default (vid_format ?q) ''mp4'')"
    unfolding disk_write_fails_def f by simp
  have b2: "getprop posix (video_data 1000 2500) ''data'' = Inr (Str ''AAAAIGZ0eXA='')"
    by (simp add: video_data_def getprop_def get_def)
  note t2 = disk_failure_is_not_an_error [of ?v "json_response 200 ''OK'' (video_data 1000 2500)"
      "video_data 1000 2500" "pdf_call None" posix "''/home/user/project/recording.mp4''" ?q]
  from video_formattable
  have vf: "\<not> isl (video_result posix (or_default (vid_format ?q) ''mp4'') (video_data 1000 2500)
            (Str ''/home/user/project/recording.mp4''))"
    by (simp add: f)
  from t2 h3 h4 d2 vf obtain blob t where
    r2: "fst (record_video posix ?v ?q) =
        Returned \<lparr>content = [Resource (''pagebolt://video/recording.'' @
                                        or_default (vid_format ?q) ''mp4'')
                                (videoMimeType (or_default (vid_format ?q) ''mp4'')) blob,
                              Text t],
                  isError = False\<rparr>"
    "\<not> failed (fst (record_video posix ?v ?q))"
    "getprop posix (video_data 1000 2500) ''data'' = Inr blob" "contains t not_saved"
    by blast
  with b2 have c2: "\<exists>t. fst (record_video posix ?v ?q) =
        Returned \<lparr>content = [Resource ''pagebolt://video/recording.mp4'' ''video/mp4''
                                (Str ''AAAAIGZ0eXA=''),
                              Text t],
                  isError = False\<rparr> \<and>
      contains t not_saved"
    by (auto simp: f videoMimeType_def)
  from h1 h2 s1 w1 d1 pdf_formattable c1 r1(2) h3 h4 s2 d2 video_formattable c2 r2(2)
  show ?thesis by blast
qed

section \<open>Size and duration in the text\<close>

lemma to_outcome_Returned: "to_outcome m = Returned r \<longleftrightarrow> m = Inr r"
  by (cases m) (auto simp: to_outcome_def)

lemma backend_data_callApi:
  "callApi pf w ep m b = (Inr res, tr) \<Longrightarrow> json_body res = Inr data \<Longrightarrow> backend_data w (tr @ wr) data"
  if "http_requests wr = []"
proof -
  assume c: "callApi pf w ep m b = (Inr res, tr)" and j: "json_body res = Inr data"
  from callApi_Inr [OF c] have "http_requests (tr @ wr) = [api_request pf w ep m b]"
    "fetch w (api_request pf w ep m b) = Responded res" "res_ok res"
    using that by (simp_all add: http_requests_append)
  with j show ?thesis unfolding backend_data_def by blast
qed

lemma screenshot_result_text:
  assumes "screenshot_result pf p res = Inr r"
  shows "\<exists>data s1 s2 img more. json_body res = Inr data \<and>
           rendered pf data ''size_bytes'' s1 \<and> rendered pf data ''duration_ms'' s2 \<and>
           content r = img # Text (''Screenshot captured successfully. Format: '' @
                                   or_default (ss_format p) ''png'' @ '', Size: '' @ s1 @
                                   '' bytes, Duration: '' @ s2 @ ''ms'') # more"
proof -
  from assms obtain data d size_bytes duration_ms body metadata where
    j: "json_body res = Inr data"
    and s: "getprop pf data ''size_bytes'' = Inr size_bytes"
    and u: "getprop pf data ''duration_ms'' = Inr duration_ms"
    and t: "template pf [Lit ''Screenshot captured successfully. Format: '',
                         Lit (or_default (ss_format p) ''png''),
                         Lit '', Size: '', Val size_bytes, Lit '' bytes, Duration: '',
                         Val duration_ms, Lit ''ms''] = Inr body"
    and r: "r = ok_result
               ([Image d (Str (imageMimeType (or_default (ss_format p) ''png''))), Text body] @
                (if truthy metadata
                 then [Text (''Metadata:'' @ newline @ JSON_stringify_indent pf metadata)]
                 else []))"
    unfolding screenshot_result_def res_json_def Let_def bindE_Inr by blast
  from t obtain s1 s2 where "ToString pf size_bytes = Inr s1" "ToString pf duration_ms = Inr s2"
    and "body = ''Screenshot captured successfully. Format: '' @
                                   or_default (ss_format p) ''png'' @ '', Size: '' @ s1 @
                                   '' bytes, Duration: '' @ s2 @ ''ms''"
    unfolding template_Lit template_Val by auto
  with j s u r show ?thesis unfolding rendered_def ok_result_def by auto
qed

lemma og_result_text:
  assumes "og_result pf p res = Inr r"
  shows "\<exists>data s1 s2 img. json_body res = Inr data \<and>
           rendered pf data ''size_bytes'' s1 \<and> rendered pf data ''duration_ms'' s2 \<and>
           content r = [img, Text (''OG image created successfully. Format: '' @
                                   or_default (og_format p) ''png'' @ '', Size: '' @ s1 @
                                   '' bytes, Duration: '' @ s2 @ ''ms'')]"
proof -
  from assms obtain data d size_bytes duration_ms body where
    j: "json_body res = Inr data"
    and s: "getprop pf data ''size_bytes'' = Inr size_bytes"
    and u: "getprop pf data ''duration_ms'' = Inr duration_ms"
    and t: "template pf [Lit ''OG image created successfully. Format: '',
                         Lit (or_default (og_format p) ''png''),
                         Lit '', Size: '', Val size_bytes, Lit '' bytes, Duration: '',
                         Val duration_ms, Lit ''ms''] = Inr body"
    and r: "r = ok_result
               [Image d (Str (imageMimeType (or_default (og_format p) ''png''))), Text body]"
    unfolding og_result_def res_json_def Let_def bindE_Inr by blast
  from t obtain s1 s2 where "ToString pf size_bytes = Inr s1" "ToString pf duration_ms = Inr s2"
    and "body = ''OG image created successfully. Format: '' @
                                   or_default (og_format p) ''png'' @ '', Size: '' @ s1 @
                                   '' bytes, Duration: '' @ s2 @ ''ms''"
    unfolding template_Lit template_Val by auto
  with j s u r show ?thesis unfolding rendered_def ok_result_def by auto
qed

lemma pdf_result_text:
  assumes "pdf_result pf data sp = Inr r"
  shows "\<exists>s1 s2 doc pre.
           rendered pf data ''size_bytes'' s1 \<and> rendered pf data ''duration_ms'' s2 \<and>
           content r = [doc, Text (pre @ ''  Size: '' @ s1 @ '' bytes'' @ newline @
                                   ''  Duration: '' @ s2 @ ''ms'')]"
proof -
  from assms obtain blob size_bytes duration_ms x0 x y where
    s: "getprop pf data ''size_bytes'' = Inr size_bytes"
    and u: "getprop pf data ''duration_ms'' = Inr duration_ms"
    and t: "template pf [Lit newline, Lit ''  Size: '', Val size_bytes,
                           Lit ('' bytes'' @ newline), Lit ''  Duration: '', Val duration_ms,
                           Lit ''ms''] = Inr y"
    and r0: "r = ok_result [Resource ''pagebolt://pdf/output.pdf'' ''application/pdf'' blob,
                        Text (x0 @ x @ y)]"
    unfolding pdf_result_def Let_def bindE_Inr template_append_Inr by blast
  then have r: "r = ok_result [Resource ''pagebolt://pdf/output.pdf'' ''application/pdf'' blob,
                        Text ((x0 @ x) @ y)]" by simp
  from t obtain s1 s2 where "ToString pf size_bytes = Inr s1" "ToString pf duration_ms = Inr s2"
    and "y = newline @ ''  Size: '' @ s1 @ '' bytes'' @ newline @ ''  Duration: '' @ s2 @ ''ms''"
    unfolding template_Lit template_Val by auto
  then have "rendered pf data ''size_bytes'' s1" "rendered pf data ''duration_ms'' s2"
    "content r = [Resource ''pagebolt://pdf/output.pdf'' ''application/pdf'' blob,
                  Text (((x0 @ x) @ newline) @ ''  Size: '' @ s1 @ '' bytes'' @ newline @
                                   ''  Duration: '' @ s2 @ ''ms'')]"
    using s u r unfolding rendered_def ok_result_def by auto
  then show ?thesis by blast
qed


lemma join_snoc: "xs \<noteq> [] \<Longrightarrow> join sep (xs @ [x]) = join sep xs @ sep @ x"
  by (induction sep xs rule: join.induct) auto

lemma inspect_result_text:
  assumes "inspect_result pf p res = Inr r"
  shows "\<exists>data s pre. json_body res = Inr data \<and> rendered pf data ''duration_ms'' s \<and>
           content r = [Text (pre @ ''Duration: '' @ s @ ''ms'')]"
proof -
  from assms obtain data page meta hs es fs ls imgs duration_ms duration where
    j: "json_body res = Inr data"
    and u: "getprop pf data ''duration_ms'' = Inr duration_ms"
    and t: "template pf [Lit ''Duration: '', Val duration_ms, Lit ''ms''] = Inr duration"
    and r: "r = ok_result
             [Text (join newline
                      ([page] @ meta @ [[]] @ hs @ es @ fs @ ls @ imgs @ [duration]))]"
    unfolding inspect_result_def res_json_def bindE_Inr by blast
  from t obtain s where s: "ToString pf duration_ms = Inr s" "duration = ''Duration: '' @ s @ ''ms''"
    unfolding template_Lit template_Val by auto
  have "join newline ([page] @ meta @ [[]] @ hs @ es @ fs @ ls @ imgs @ [duration]) =
        join newline (([page] @ meta @ [[]] @ hs @ es @ fs @ ls @ imgs) @ [duration])"
    by simp
  also have "\<dots> = join newline ([page] @ meta @ [[]] @ hs @ es @ fs @ ls @ imgs) @ newline @ duration"
    by (rule join_snoc) simp
  finally have "content r =
      [Text ((join newline ([page] @ meta @ [[]] @ hs @ es @ fs @ ls @ imgs) @ newline) @
             ''Duration: '' @ s @ ''ms'')]"
    unfolding r ok_result_def s(2) by simp
  with j u s(1) show ?thesis unfolding rendered_def by blast
qed

lemma video_result_text:
  assumes "video_result pf ext data sp = Inr r"
  shows "\<exists>kb sec doc pre post.
           scaled pf data ''size_bytes'' 1024 kb \<and> scaled pf data ''duration_ms'' 1000 sec \<and>
           content r = [doc, Text (pre @ ''  Size:     '' @ kb @ '' KB'' @ newline @
                                   ''  Duration: '' @ sec @ ''s'' @ newline @ post)]"
proof -
  from assms obtain duration_ms durationSec blob t1 t2 size_bytes kb frames steps_completed
      total_steps t3 t4 t5 where
    a1: "getprop pf data ''duration_ms'' = Inr duration_ms"
    and a2: "quotient_toFixed1 pf duration_ms 1000 = Inr durationSec"
    and a7: "getprop pf data ''size_bytes'' = Inr size_bytes"
    and a8: "quotient_toFixed1 pf size_bytes 1024 = Inr kb"
    and a12: "template pf [Lit ''  Size:     '', Lit kb, Lit ('' KB'' @ newline),
                         Lit ''  Duration: '', Lit durationSec, Lit (''s'' @ newline),
                         Lit ''  Frames:   '', Val frames, Lit newline,
                         Lit ''  Steps:    '', Val steps_completed, Lit ''/'', Val total_steps,
                         Lit ('' completed'' @ newline)] = Inr t3"
    and r: "r = ok_result [Resource (''pagebolt://video/recording.'' @ ext) (videoMimeType ext) blob,
                       Text (t1 @ t2 @ t3 @ t4 @ t5)]"
    unfolding video_result_def Let_def bindE_Inr by blast
  from a12 obtain rest where t3: "t3 = ''  Size:     '' @ kb @ '' KB'' @ newline @
                         ''  Duration: '' @ durationSec @ ''s'' @ newline @ rest"
    unfolding template_Lit template_Val by auto
  from a1 a2 have d: "scaled pf data ''duration_ms'' 1000 durationSec"
    unfolding scaled_def quotient_toFixed1_def bindE_Inr by auto
  from a7 a8 have k: "scaled pf data ''size_bytes'' 1024 kb"
    unfolding scaled_def quotient_toFixed1_def bindE_Inr by auto
  have "content r = [Resource (''pagebolt://video/recording.'' @ ext) (videoMimeType ext) blob,
                     Text ((t1 @ t2) @ ''  Size:     '' @ kb @ '' KB'' @ newline @
                           ''  Duration: '' @ durationSec @ ''s'' @ newline @ (rest @ t4 @ t5))]"
    unfolding r ok_result_def t3 by simp
  with d k show ?thesis by blast
qed

lemma mapE_Inr: "mapE f xs = Inr ys \<Longrightarrow> list_all2 (\<lambda>x y. f x = Inr y) xs ys"
proof (induction xs arbitrary: ys)
  case Nil
  then show ?case by simp
next
  case (Cons x xs)
  then show ?case by (auto simp: bindE_Inr)
qed

lemma bindE_left: "bindE (Inr x) f = f x"
  by (simp add: bindE_def)

lemma output_items_reports:
  assumes "output_items pf output = Inr items"
  shows "reports_output pf output items"
proof -
  from assms obtain ty where ty: "getprop pf output ''type'' = Inr ty"
    unfolding output_items_def bindE_Inr by blast
  define is_shot where "is_shot \<longleftrightarrow> ty = Str ''screenshot''"
  define is_pdf where "is_pdf \<longleftrightarrow> ty = Str ''pdf''"
  from assms have e: "(if is_shot then
         bindE (getprop pf output ''data'') (\<lambda>d.
         bindE (getprop pf output ''content_type'') (\<lambda>content_type.
         bindE (getprop pf output ''name'') (\<lambda>name.
         bindE (getprop pf output ''format'') (\<lambda>format.
         bindE (getprop pf output ''size_bytes'') (\<lambda>size_bytes.
         bindE (getprop pf output ''step_index'') (\<lambda>step_index.
         bindE (template pf [Lit ''['', Val name, Lit (''] Screenshot '' @ emdash @ '' ''),
                             Val format, Lit '', '', Val size_bytes, Lit '' bytes, step '',
                             Val step_index]) (\<lambda>text.
           Inr [Image d content_type, Text text])))))))
       else if is_pdf then
         bindE (getprop pf output ''name'') (\<lambda>name.
         bindE (getprop pf output ''format'') (\<lambda>format.
         bindE (getprop pf output ''size_bytes'') (\<lambda>size_bytes.
         bindE (getprop pf output ''step_index'') (\<lambda>step_index.
         bindE (template pf [Lit ''['', Val name, Lit (''] PDF generated '' @ emdash @ '' ''),
                             Val format, Lit '', '', Val size_bytes, Lit '' bytes, step '',
                             Val step_index,
                             Lit '' (base64 data available in raw response)'']) (\<lambda>text.
           Inr [Text text])))))
       else Inr []) = Inr items"
    unfolding output_items_def ty bindE_left is_shot_def is_pdf_def .
  show ?thesis
  proof (cases is_shot)
    case True
    with e have "bindE (getprop pf output ''data'') (\<lambda>d.
         bindE (getprop pf output ''content_type'') (\<lambda>content_type.
         bindE (getprop pf output ''name'') (\<lambda>name.
         bindE (getprop pf output ''format'') (\<lambda>format.
         bindE (getprop pf output ''size_bytes'') (\<lambda>size_bytes.
         bindE (getprop pf output ''step_index'') (\<lambda>step_index.
         bindE (template pf [Lit ''['', Val name, Lit (''] Screenshot '' @ emdash @ '' ''),
                             Val format, Lit '', '', Val size_bytes, Lit '' bytes, step '',
                             Val step_index]) (\<lambda>text.
           Inr [Image d content_type, Text text]))))))) = Inr items"
      by (simp only: if_True)
    then obtain d content_type name format size_bytes step_index body where
      s: "getprop pf output ''size_bytes'' = Inr size_bytes"
      and t: "template pf [Lit ''['', Val name, Lit (''] Screenshot '' @ emdash @ '' ''),
                             Val format, Lit '', '', Val size_bytes, Lit '' bytes, step '',
                             Val step_index] = Inr body"
      and i: "items = [Image d content_type, Text body]"
      unfolding bindE_Inr by blast
    from t obtain a b s1 c where "ToString pf size_bytes = Inr s1"
      "body = (''['' @ a @ (''] Screenshot '' @ emdash @ '' '') @ b) @ '', '' @ s1 @ '' bytes, step '' @ c"
      unfolding template_Lit template_Val by auto
    with s i have "rendered pf output ''size_bytes'' s1"
      "texts items = [(''['' @ a @ (''] Screenshot '' @ emdash @ '' '') @ b) @ '', '' @ s1 @ '' bytes, step '' @ c]"
      "length items = 2"
      unfolding rendered_def by auto
    then have "\<exists>s pre post. rendered pf output ''size_bytes'' s \<and>
                 texts items = [pre @ '', '' @ s @ '' bytes, step '' @ post] \<and>
                 length items = 2"
      by blast
    moreover from True have "ty = Str ''screenshot''" by (simp add: is_shot_def)
    ultimately show ?thesis unfolding reports_output_def using ty by auto
  next
    case False
    note not_shot = this
    show ?thesis
    proof (cases is_pdf)
      case True
      with e not_shot have "bindE (getprop pf output ''name'') (\<lambda>name.
         bindE (getprop pf output ''format'') (\<lambda>format.
         bindE (getprop pf output ''size_bytes'') (\<lambda>size_bytes.
         bindE (getprop pf output ''step_index'') (\<lambda>step_index.
         bindE (template pf [Lit ''['', Val name, Lit (''] PDF generated '' @ emdash @ '' ''),
                             Val format, Lit '', '', Val size_bytes, Lit '' bytes, step '',
                             Val step_index,
                             Lit '' (base64 data available in raw response)'']) (\<lambda>text.
           Inr [Text text]))))) = Inr items"
        by (simp only: if_True if_False)
      then obtain name format size_bytes step_index body where
        s: "getprop pf output ''size_bytes'' = Inr size_bytes"
        and t: "template pf [Lit ''['', Val name, Lit (''] PDF generated '' @ emdash @ '' ''),
                             Val format, Lit '', '', Val size_bytes, Lit '' bytes, step '',
                             Val step_index,
                             Lit '' (base64 data available in raw response)''] = Inr body"
        and i: "items = [Text body]"
        unfolding bindE_Inr by blast
      from t obtain a b s1 c where "ToString pf size_bytes = Inr s1"
        "body = (''['' @ a @ (''] PDF generated '' @ emdash @ '' '') @ b) @ '', '' @ s1 @
                '' bytes, step '' @ (c @ '' (base64 data available in raw response)'')"
        unfolding template_Lit template_Val by auto
      with s i have "rendered pf output ''size_bytes'' s1"
        "texts items = [(''['' @ a @ (''] PDF generated '' @ emdash @ '' '') @ b) @ '', '' @ s1 @
                '' bytes, step '' @ (c @ '' (base64 data available in raw response)'')]"
        "length items = 1"
        unfolding rendered_def by auto
      then have "\<exists>s pre post. rendered pf output ''size_bytes'' s \<and>
                   texts items = [pre @ '', '' @ s @ '' bytes, step '' @ post] \<and>
                   length items = 1"
        by blast
      moreover from True have "ty = Str ''pdf''" by (simp add: is_pdf_def)
      ultimately show ?thesis unfolding reports_output_def using ty by auto
    next
      case False
      with e not_shot have "items = []"
        by simp
      moreover from False not_shot have "ty \<noteq> Str ''screenshot''" "ty \<noteq> Str ''pdf''"
        by (simp_all add: is_shot_def is_pdf_def)
      ultimately show ?thesis unfolding reports_output_def using ty by auto
    qed
  qed
qed

lemma sequence_result_text:
  assumes "sequence_result pf res = Inr r"
  shows "\<exists>data outputs outs itemss s pre post.
           json_body res = Inr data \<and> getprop pf data ''outputs'' = Inr outputs \<and>
           iterate pf outputs = Inr outs \<and>
           list_all2 (\<lambda>output items. output_items pf output = Inr items) outs itemss \<and>
           rendered pf data ''total_duration_ms'' s \<and>
           content r = concat itemss @
             [Text (''Sequence complete: '' @ pre @ '' outputs, '' @ s @ ''ms total.'' @ post)]"
proof -
  from assms obtain data outputs outs itemss steps_completed total_steps n_outputs
      total_duration_ms summary1 summary2 summary3 summary4 where
    j: "json_body res = Inr data"
    and o: "getprop pf data ''outputs'' = Inr outputs"
    and i: "iterate pf outputs = Inr outs"
    and m: "mapE (output_items pf) outs = Inr itemss"
    and u: "getprop pf data ''total_duration_ms'' = Inr total_duration_ms"
    and t: "template pf [Lit ''Sequence complete: '', Val steps_completed, Lit ''/'',
                         Val total_steps, Lit '' steps, '', Val n_outputs, Lit '' outputs, '',
                         Val total_duration_ms, Lit ''ms total.''] = Inr summary1"
    and r: "r = ok_result (concat itemss @
                       [Text (summary1 @ summary2 @ summary3 @ summary4)])"
    unfolding sequence_result_def res_json_def bindE_Inr by blast
  from t obtain a b c s where s: "ToString pf total_duration_ms = Inr s"
    "summary1 = ''Sequence complete: '' @ (a @ ''/'' @ b @ '' steps, '' @ c) @ '' outputs, '' @ s @
                ''ms total.''"
    unfolding template_Lit template_Val by auto
  have "content r = concat itemss @
      [Text (''Sequence complete: '' @ (a @ ''/'' @ b @ '' steps, '' @ c) @ '' outputs, '' @ s @
             ''ms total.'' @ (summary2 @ summary3 @ summary4))]"
    unfolding r ok_result_def s(2) by simp
  with j o i mapE_Inr [OF m] u s(1) show ?thesis unfolding rendered_def by blast
qed

lemma Returned_not_failed:
  "fst x = Returned r \<Longrightarrow> \<not> isError r \<Longrightarrow> \<not> failed (fst x)"
  by simp

lemma take_screenshot_success:
  assumes "fst (take_screenshot pf w p) = Returned r" "\<not> isError r"
  shows "\<exists>res data. screenshot_result pf p res = Inr r \<and> json_body res = Inr data \<and>
           backend_data w (snd (take_screenshot pf w p)) data"
proof -
  let ?c = "callApi pf w ''/api/v1/screenshot'' (Some ''POST'')
               (Obj (opt_member ''url'' (ss_url p) @ opt_member ''html'' (ss_html p) @
                     opt_member ''markdown'' (ss_markdown p) @
                     opt_member ''format'' (ss_format p) @ ss_rest p @
                     [(''response_type'', Str ''json'')]))"
  obtain x tr where c: "?c = (x, tr)" by (cases ?c) auto
  from assms c obtain res where x: "x = Inr res" and s: "screenshot_result pf p res = Inr r"
    and t: "snd (take_screenshot pf w p) = tr"
    by (cases x)
       (auto simp: take_screenshot_def error_result_def to_outcome_Returned split: if_splits)
  from s obtain data where j: "json_body res = Inr data"
    unfolding screenshot_result_def res_json_def bindE_Inr by blast
  from backend_data_callApi [of "[]" pf w _ _ _ res tr data] c x j
  have "backend_data w tr data" by simp
  with s j t show ?thesis by auto
qed

lemma create_og_image_success:
  assumes "fst (create_og_image pf w p) = Returned r" "\<not> isError r"
  shows "\<exists>res data. og_result pf p res = Inr r \<and> json_body res = Inr data \<and>
           backend_data w (snd (create_og_image pf w p)) data"
proof -
  let ?c = "callApi pf w ''/api/v1/og-image'' (Some ''POST'')
             (Obj (opt_member ''format'' (og_format p) @ og_rest p @
                   [(''response_type'', Str ''json'')]))"
  obtain x tr where c: "?c = (x, tr)" by (cases ?c) auto
  from assms c obtain res where x: "x = Inr res" and s: "og_result pf p res = Inr r"
    and t: "snd (create_og_image pf w p) = tr"
    by (cases x) (auto simp: create_og_image_def to_outcome_Returned)
  from s obtain data where j: "json_body res = Inr data"
    unfolding og_result_def res_json_def bindE_Inr by blast
  from backend_data_callApi [of "[]" pf w _ _ _ res tr data] c x j
  have "backend_data w tr data" by simp
  with s j t show ?thesis by auto
qed

lemma inspect_page_success:
  assumes "fst (inspect_page pf w p) = Returned r" "\<not> isError r"
  shows "\<exists>res data. inspect_result pf p res = Inr r \<and> json_body res = Inr data \<and>
           backend_data w (snd (inspect_page pf w p)) data"
proof -
  let ?c = "callApi pf w ''/api/v1/inspect'' (Some ''POST'')
               (Obj (opt_member ''url'' (in_url p) @ opt_member ''html'' (in_html p) @
                     in_rest p))"
  obtain x tr where c: "?c = (x, tr)" by (cases ?c) auto
  from assms c obtain res where x: "x = Inr res" and s: "inspect_result pf p res = Inr r"
    and t: "snd (inspect_page pf w p) = tr"
    by (cases x; cases "inspect_result pf p (projr x)")
       (auto simp: inspect_page_def error_result_def split: if_splits)
  from s obtain data where j: "json_body res = Inr data"
    unfolding inspect_result_def res_json_def bindE_Inr by blast
  from backend_data_callApi [of "[]" pf w _ _ _ res tr data] c x j
  have "backend_data w tr data" by simp
  with s j t show ?thesis by auto
qed

lemma run_sequence_success:
  assumes "fst (run_sequence pf w p) = Returned r" "\<not> isError r"
  shows "\<exists>res data. sequence_result pf res = Inr r \<and> json_body res = Inr data \<and>
           backend_data w (snd (run_sequence pf w p)) data"
proof -
  let ?c = "callApi pf w ''/api/v1/sequence'' (Some ''POST'')
               (Obj (steps_member (seq_steps p) @ seq_rest p))"
  obtain x tr where c: "?c = (x, tr)" by (cases ?c) auto
  from assms c obtain res where x: "x = Inr res" and s: "sequence_result pf res = Inr r"
    and t: "snd (run_sequence pf w p) = tr"
    by (cases x; cases "sequence_result pf (projr x)")
       (auto simp: run_sequence_def error_result_def split: if_splits)
  from s obtain data where j: "json_body res = Inr data"
    unfolding sequence_result_def res_json_def bindE_Inr by blast
  from backend_data_callApi [of "[]" pf w _ _ _ res tr data] c x j
  have "backend_data w tr data" by simp
  with s j t show ?thesis by auto
qed

lemma save_to_disk_no_requests:
  "save_to_disk pf w data s d = (sp, wr) \<Longrightarrow> http_requests wr = []"
  using save_to_disk_trace write_trace_requests by blast

lemma generate_pdf_success:
  assumes "fst (generate_pdf pf w p) = Returned r" "\<not> isError r"
  shows "\<exists>data sp. pdf_result pf data sp = Inr r \<and>
           backend_data w (snd (generate_pdf pf w p)) data"
proof -
  let ?c = "callApi pf w ''/api/v1/pdf'' (Some ''POST'')
               (Obj (opt_member ''url'' (pdf_url p) @ opt_member ''html'' (pdf_html p) @
                     pdf_rest p @ [(''response_type'', Str ''json'')]))"
  obtain x tr where c: "?c = (x, tr)" by (cases ?c) auto
  have v: "\<not> (\<not> truthy (opt_str (pdf_url p)) \<and> \<not> truthy (opt_str (pdf_html p)))"
  proof
    assume "\<not> truthy (opt_str (pdf_url p)) \<and> \<not> truthy (opt_str (pdf_html p))"
    then have \<open>fst (generate_pdf pf w p) =
        Returned (error_result ''Error: Either "url" or "html" is required.'')\<close>
      by (simp add: generate_pdf_def)
    with assms show False by (auto simp: error_result_def)
  qed
  from assms c v obtain res where x: "x = Inr res"
    by (cases x) (auto simp: generate_pdf_def)
  from assms c v x obtain data where j: "json_body res = Inr data"
    by (cases "json_body res") (auto simp: generate_pdf_def res_json_def)
  obtain sp wr where sv: "save_to_disk pf w data (pdf_saveTo p) ''./output.pdf'' = (sp, wr)"
    by (cases "save_to_disk pf w data (pdf_saveTo p) ''./output.pdf''") auto
  from assms c v x j sv have s: "pdf_result pf data sp = Inr r"
    and t: "snd (generate_pdf pf w p) = tr @ wr"
    by (auto simp: generate_pdf_def res_json_def to_outcome_Returned)
  from backend_data_callApi [of wr pf w _ _ _ res tr data] c x j save_to_disk_no_requests [OF sv]
  have "backend_data w (tr @ wr) data" by simp
  with s t show ?thesis by auto
qed

lemma record_video_success:
  assumes "fst (record_video pf w p) = Returned r" "\<not> isError r"
  shows "\<exists>data sp. video_result pf (or_default (vid_format p) ''mp4'') data sp = Inr r \<and>
           backend_data w (snd (record_video pf w p)) data"
proof -
  let ?c = "callApi pf w ''/api/v1/video'' (Some ''POST'')
               (Obj (steps_member (vid_steps p) @ opt_member ''format'' (vid_format p) @
                     vid_rest p @ [(''response_type'', Str ''json'')]))"
  obtain x tr where c: "?c = (x, tr)" by (cases ?c) auto
  from assms have v: "\<not> no_steps (vid_steps p)"
    by (auto simp: record_video_def error_result_def)
  from assms c v obtain res where x: "x = Inr res"
    by (cases x) (auto simp: record_video_def error_result_def)
  from assms c v x obtain data where j: "json_body res = Inr data"
    by (cases "json_body res") (auto simp: record_video_def res_json_def error_result_def)
  obtain sp wr where sv: "save_to_disk pf w data (vid_saveTo p)
        (''./recording.'' @ or_default (vid_format p) ''mp4'') = (sp, wr)"
    by (cases "save_to_disk pf w data (vid_saveTo p)
        (''./recording.'' @ or_default (vid_format p) ''mp4'')") auto
  from assms c v x j sv have s: "video_result pf (or_default (vid_format p) ''mp4'') data sp = Inr r"
    and t: "snd (record_video pf w p) = tr @ wr"
    by (cases "video_result pf (or_default (vid_format p) ''mp4'') data sp";
        auto simp: record_video_def res_json_def error_result_def Let_def)+
  from backend_data_callApi [of wr pf w _ _ _ res tr data] c x j save_to_disk_no_requests [OF sv]
  have "backend_data w (tr @ wr) data" by simp
  with s t show ?thesis by auto
qed

lemma video_example_run:
  "fst (record_video posix (backend (video_data 1000 2500)) (video_call None)) =
     Returned video_example"
  by code_simp

lemma video_example_run':
  "fst (record_video posix (backend (video_data 1001 2501)) (video_call None)) =
     Returned video_example"
  by code_simp

lemma video_example_size: "\<not> contains video_example_text ''1000''"
  by code_simp

lemma video_example_duration: "\<not> contains video_example_text ''2500''"
  by code_simp

lemma sequence_sized_run:
  "fst (run_sequence posix (backend sequence_data_sized) sequence_call) =
     Returned sequence_example"
  by code_simp

lemma sequence_example_size: "\<not> mentions (Returned sequence_example) ''1000''"
  by code_simp

lemma sequence_example_duration: "\<not> mentions (Returned sequence_example) ''2500''"
  by code_simp

lemma inspect_example_run:
  "fst (inspect_page posix (backend page_data) inspect_call) = Returned inspect_example"
  by code_simp

lemma inspect_example_size: "\<not> mentions (Returned inspect_example) ''1000''"
  by code_simp

lemma screenshot_not_json_run:
  "fst (take_screenshot posix (answering (Responded (not_json 200 ''OK''))) screenshot_call) =
     Thrown (SyntaxError ''Unexpected token < in JSON at position 0'')"
  by code_simp

lemma sequence_not_json_run:
  "fst (run_sequence posix (answering (Responded (not_json 200 ''OK''))) sequence_call) =
     Returned (error_result ''Sequence error: Unexpected token < in JSON at position 0'')"
  by code_simp

lemma show_int_1000: "show_int 1000 = ''1000''"
  by code_simp

lemma show_int_2500: "show_int 2500 = ''2500''"
  by code_simp

lemma show_int_20480: "show_int 20480 = ''20480''"
  by code_simp

lemma show_int_51200: "show_int 51200 = ''51200''"
  by code_simp

lemma show_int_1830: "show_int 1830 = ''1830''"
  by code_simp

lemma show_int_812: "show_int 812 = ''812''"
  by code_simp

lemma show_int_640: "show_int 640 = ''640''"
  by code_simp

lemma show_int_8: "show_int 8 = ''8''"
  by code_simp

text \<open>
  A member that is a safe integer is printed with its decimal digits.
\<close>

lemma rendered_safe_integer:
  assumes "getprop pf obj k = Inr (Num (of_int n))" and "\<bar>n\<bar> < 9007199254740992"
  shows "rendered pf obj k s \<longleftrightarrow> s = show_int n"
proof -
  from assms(2) have "is_safe_integer (of_int n)"
    by (simp add: is_safe_integer_def flip: of_int_abs)
  then have "ToString pf (Num (of_int n)) = Inr (show_int n)"
    by (simp add: ToString_def)
  with assms(1) show ?thesis unfolding rendered_def by auto
qed

text \<open>
  Claim C4, as stated, fails in four ways. record_video prints neither member: for a
  response with size_bytes 1000 and duration_ms 2500 the text reports \<^verbatim>\<open>1.0 KB\<close> and
  \<^verbatim>\<open>2.5s\<close>, neither number occurs in it, and a response with 1001 bytes and 2501 ms gives
  the same result. run_sequence does not read the members size_bytes and duration_ms of the
  response: with 1000 and 2500 in them, its texts print the size_bytes of each output and
  total_duration_ms, and neither 1000 nor 2500. inspect_page reports no size: for a response
  with size_bytes 1000 its text does not contain 1000. A response with status 200 need not
  lead to a result with such a text: when its body is not JSON, take_screenshot throws and
  run_sequence returns an error result.
\<close>

theorem size_and_duration_not_relayed:
  "ToString posix (Num 1000) = Inr ''1000'' \<and> ToString posix (Num 2500) = Inr ''2500'' \<and>
   fst (record_video posix (backend (video_data 1000 2500)) (video_call None)) =
     Returned video_example \<and>
   \<not> mentions (Returned video_example) ''1000'' \<and>
   \<not> mentions (Returned video_example) ''2500'' \<and>
   fst (record_video posix (backend (video_data 1001 2501)) (video_call None)) =
     Returned video_example \<and>
   getprop posix sequence_data_sized ''size_bytes'' = Inr (Num 1000) \<and>
   getprop posix sequence_data_sized ''duration_ms'' = Inr (Num 2500) \<and>
   fst (run_sequence posix (backend sequence_data_sized) sequence_call) =
     Returned sequence_example \<and>
   \<not> mentions (Returned sequence_example) ''1000'' \<and>
   \<not> mentions (Returned sequence_example) ''2500'' \<and>
   getprop posix page_data ''size_bytes'' = Inr (Num 1000) \<and>
   fst (inspect_page posix (backend page_data) inspect_call) = Returned inspect_example \<and>
   \<not> mentions (Returned inspect_example) ''1000'' \<and>
   res_ok (not_json 200 ''OK'') \<and>
   fst (take_screenshot posix (answering (Responded (not_json 200 ''OK''))) screenshot_call) =
     Thrown (SyntaxError ''Unexpected token < in JSON at position 0'') \<and>
   fst (run_sequence posix (answering (Responded (not_json 200 ''OK''))) sequence_call) =
     Returned (error_result ''Sequence error: Unexpected token < in JSON at position 0'')"
proof -
  have n: "ToString posix (Num 1000) = Inr ''1000''" "ToString posix (Num 2500) = Inr ''2500''"
    by (simp_all add: ToString_def is_safe_integer_def show_int_1000 show_int_2500)
  have "outcome_texts (Returned video_example) = [video_example_text]"
    by (simp add: video_example_def)
  then have v: "\<not> mentions (Returned video_example) ''1000''"
    "\<not> mentions (Returned video_example) ''2500''"
    unfolding mentions_def using video_example_size video_example_duration by simp_all
  have g: "getprop posix sequence_data_sized ''size_bytes'' = Inr (Num 1000)"
    "getprop posix sequence_data_sized ''duration_ms'' = Inr (Num 2500)"
    by (simp_all add: sequence_data_sized_def getprop_def get_def)
  have k: "res_ok (not_json 200 ''OK'')"
    by (simp add: not_json_def res_ok_def)
  have i: "getprop posix page_data ''size_bytes'' = Inr (Num 1000)"
    by (simp add: page_data_def getprop_def get_def)
  from n v g k i video_example_run video_example_run' sequence_sized_run sequence_example_size
    sequence_example_duration inspect_example_run inspect_example_size
    screenshot_not_json_run sequence_not_json_run
  show ?thesis by blast
qed

text \<open>
  Claim C4, amended. For every response with a status in 200..299 on which the tool
  returns a result that is not an error: the text of take_screenshot, generate_pdf and
  create_og_image prints the members size_bytes and duration_ms of the response as they
  are, that is, as a template literal prints them; that of inspect_page prints duration_ms
  as it is; run_sequence prints, for each output of the response that is a screenshot or a
  pdf, one text with the size_bytes of that output as it is, and in its last text the
  total_duration_ms of the response as it is; record_video prints size_bytes divided by 1024
  and duration_ms divided by 1000, each rounded to one decimal.
\<close>

theorem size_and_duration_in_text:
  "(fst (take_screenshot pf w p1) = Returned r1 \<and> \<not> isError r1 \<longrightarrow>
      (\<exists>data s1 s2 img more.
         backend_data w (snd (take_screenshot pf w p1)) data \<and>
         rendered pf data ''size_bytes'' s1 \<and> rendered pf data ''duration_ms'' s2 \<and>
         content r1 = img # Text (''Screenshot captured successfully. Format: '' @
                                  or_default (ss_format p1) ''png'' @ '', Size: '' @ s1 @
                                  '' bytes, Duration: '' @ s2 @ ''ms'') # more)) \<and>
   (fst (generate_pdf pf w p2) = Returned r2 \<and> \<not> isError r2 \<longrightarrow>
      (\<exists>data s1 s2 doc pre.
         backend_data w (snd (generate_pdf pf w p2)) data \<and>
         rendered pf data ''size_bytes'' s1 \<and> rendered pf data ''duration_ms'' s2 \<and>
         content r2 = [doc, Text (pre @ ''  Size: '' @ s1 @ '' bytes'' @ newline @
                                  ''  Duration: '' @ s2 @ ''ms'')])) \<and>
   (fst (create_og_image pf w p3) = Returned r3 \<and> \<not> isError r3 \<longrightarrow>
      (\<exists>data s1 s2 img.
         backend_data w (snd (create_og_image pf w p3)) data \<and>
         rendered pf data ''size_bytes'' s1 \<and> rendered pf data ''duration_ms'' s2 \<and>
         content r3 = [img, Text (''OG image created successfully. Format: '' @
                                  or_default (og_format p3) ''png'' @ '', Size: '' @ s1 @
                                  '' bytes, Duration: '' @ s2 @ ''ms'')])) \<and>
   (fst (inspect_page pf w p4) = Returned r4 \<and> \<not> isError r4 \<longrightarrow>
      (\<exists>data s pre.
         backend_data w (snd (inspect_page pf w p4)) data \<and>
         rendered pf data ''duration_ms'' s \<and>
         content r4 = [Text (pre @ ''Duration: '' @ s @ ''ms'')])) \<and>
   (fst (run_sequence pf w p5) = Returned r5 \<and> \<not> isError r5 \<longrightarrow>
      (\<exists>data outputs outs itemss s pre post.
         backend_data w (snd (run_sequence pf w p5)) data \<and>
         getprop pf data ''outputs'' = Inr outputs \<and> iterate pf outputs = Inr outs \<and>
         list_all2 (reports_output pf) outs itemss \<and>
         rendered pf data ''total_duration_ms'' s \<and>
         content r5 = concat itemss @
           [Text (''Sequence complete: '' @ pre @ '' outputs, '' @ s @ ''ms total.'' @ post)])) \<and>
   (fst (record_video pf w p6) = Returned r6 \<and> \<not> isError r6 \<longrightarrow>
      (\<exists>data kb sec doc pre post.
         backend_data w (snd (record_video pf w p6)) data \<and>
         scaled pf data ''size_bytes'' 1024 kb \<and> scaled pf data ''duration_ms'' 1000 sec \<and>
         content r6 = [doc, Text (pre @ ''  Size:     '' @ kb @ '' KB'' @ newline @
                                  ''  Duration: '' @ sec @ ''s'' @ newline @ post)]))"
proof (intro conjI impI; elim conjE)
  assume a: "fst (take_screenshot pf w p1) = Returned r1" "\<not> isError r1"
  from take_screenshot_success [OF a] obtain res data where
    "screenshot_result pf p1 res = Inr r1" "json_body res = Inr data"
    "backend_data w (snd (take_screenshot pf w p1)) data" by blast
  with screenshot_result_text [of pf p1 res r1]
  show "\<exists>data s1 s2 img more.
         backend_data w (snd (take_screenshot pf w p1)) data \<and>
         rendered pf data ''size_bytes'' s1 \<and> rendered pf data ''duration_ms'' s2 \<and>
         content r1 = img # Text (''Screenshot captured successfully. Format: '' @
                                  or_default (ss_format p1) ''png'' @ '', Size: '' @ s1 @
                                  '' bytes, Duration: '' @ s2 @ ''ms'') # more"
    by fastforce
next
  assume a: "fst (generate_pdf pf w p2) = Returned r2" "\<not> isError r2"
  from generate_pdf_success [OF a] obtain data sp where
    "pdf_result pf data sp = Inr r2" "backend_data w (snd (generate_pdf pf w p2)) data" by blast
  with pdf_result_text [of pf data sp r2]
  show "\<exists>data s1 s2 doc pre.
         backend_data w (snd (generate_pdf pf w p2)) data \<and>
         rendered pf data ''size_bytes'' s1 \<and> rendered pf data ''duration_ms'' s2 \<and>
         content r2 = [doc, Text (pre @ ''  Size: '' @ s1 @ '' bytes'' @ newline @
                                  ''  Duration: '' @ s2 @ ''ms'')]"
    by blast
next
  assume a: "fst (create_og_image pf w p3) = Returned r3" "\<not> isError r3"
  from create_og_image_success [OF a] obtain res data where
    "og_result pf p3 res = Inr r3" "json_body res = Inr data"
    "backend_data w (snd (create_og_image pf w p3)) data" by blast
  with og_result_text [of pf p3 res r3]
  show "\<exists>data s1 s2 img.
         backend_data w (snd (create_og_image pf w p3)) data \<and>
         rendered pf data ''size_bytes'' s1 \<and> rendered pf data ''duration_ms'' s2 \<and>
         content r3 = [img, Text (''OG image created successfully. Format: '' @
                                  or_default (og_format p3) ''png'' @ '', Size: '' @ s1 @
                                  '' bytes, Duration: '' @ s2 @ ''ms'')]"
    by fastforce
next
  assume a: "fst (inspect_page pf w p4) = Returned r4" "\<not> isError r4"
  from inspect_page_success [OF a] obtain res data where
    "inspect_result pf p4 res = Inr r4" "json_body res = Inr data"
    "backend_data w (snd (inspect_page pf w p4)) data" by blast
  with inspect_result_text [of pf p4 res r4]
  show "\<exists>data s pre.
         backend_data w (snd (inspect_page pf w p4)) data \<and>
         rendered pf data ''duration_ms'' s \<and>
         content r4 = [Text (pre @ ''Duration: '' @ s @ ''ms'')]"
    by fastforce
next
  assume a: "fst (run_sequence pf w p5) = Returned r5" "\<not> isError r5"
  from run_sequence_success [OF a] obtain res data where
    s: "sequence_result pf res = Inr r5" and j: "json_body res = Inr data"
    and b: "backend_data w (snd (run_sequence pf w p5)) data" by blast
  from sequence_result_text [OF s] j obtain outputs outs itemss s pre post where
    o: "getprop pf data ''outputs'' = Inr outputs" "iterate pf outputs = Inr outs"
    and l: "list_all2 (\<lambda>output items. output_items pf output = Inr items) outs itemss"
    and t: "rendered pf data ''total_duration_ms'' s"
      "content r5 = concat itemss @
           [Text (''Sequence complete: '' @ pre @ '' outputs, '' @ s @ ''ms total.'' @ post)]"
    by auto
  from l have "list_all2 (reports_output pf) outs itemss"
    by (rule list_all2_mono) (rule output_items_reports)
  with b o t
  show "\<exists>data outputs outs itemss s pre post.
         backend_data w (snd (run_sequence pf w p5)) data \<and>
         getprop pf data ''outputs'' = Inr outputs \<and> iterate pf outputs = Inr outs \<and>
         list_all2 (reports_output pf) outs itemss \<and>
         rendered pf data ''total_duration_ms'' s \<and>
         content r5 = concat itemss @
           [Text (''Sequence complete: '' @ pre @ '' outputs, '' @ s @ ''ms total.'' @ post)]"
    by blast
next
  assume a: "fst (record_video pf w p6) = Returned r6" "\<not> isError r6"
  from record_video_success [OF a] obtain data sp where
    "video_result pf (or_default (vid_format p6) ''mp4'') data sp = Inr r6"
    "backend_data w (snd (record_video pf w p6)) data" by blast
  with video_result_text [of pf "or_default (vid_format p6) ''mp4''" data sp r6]
  show "\<exists>data kb sec doc pre post.
         backend_data w (snd (record_video pf w p6)) data \<and>
         scaled pf data ''size_bytes'' 1024 kb \<and> scaled pf data ''duration_ms'' 1000 sec \<and>
         content r6 = [doc, Text (pre @ ''  Size:     '' @ kb @ '' KB'' @ newline @
                                  ''  Duration: '' @ sec @ ''s'' @ newline @ post)]"
    by blast
qed

lemma screenshot_example_run:
  "fst (take_screenshot posix (backend shot_data) screenshot_call) = Returned screenshot_example"
  by code_simp

lemma pdf_example_run:
  "fst (generate_pdf posix (backend pdf_data) (pdf_call None)) = Returned pdf_example"
  by code_simp

lemma og_example_run:
  "fst (create_og_image posix (backend shot_data) og_call) = Returned og_example"
  by code_simp

lemma sequence_example_run:
  "fst (run_sequence posix (backend sequence_data) sequence_call) = Returned sequence_example"
  by code_simp

lemma kb_1000: "toFixed1 posix (js_div (Fin 1000) (Fin 1024)) = ''1.0''"
  by code_simp

lemma sec_2500: "toFixed1 posix (js_div (Fin 2500) (Fin 1000)) = ''2.5''"
  by code_simp

lemma rendered_unique: "rendered pf obj k s \<Longrightarrow> rendered pf obj k t \<Longrightarrow> s = t"
  by (auto simp: rendered_def)

lemma scaled_unique: "scaled pf obj k d s \<Longrightarrow> scaled pf obj k d t \<Longrightarrow> s = t"
  by (auto simp: scaled_def)

lemma shot_data_rendered:
  "rendered posix shot_data ''size_bytes'' ''20480''"
  "rendered posix shot_data ''duration_ms'' ''812''"
  using rendered_safe_integer [of posix shot_data "''size_bytes''" 20480 "''20480''"]
    rendered_safe_integer [of posix shot_data "''duration_ms''" 812 "''812''"]
  by (simp_all add: shot_data_def getprop_def get_def show_int_20480 show_int_812)

lemma pdf_data_rendered:
  "rendered posix pdf_data ''size_bytes'' ''8''"
  "rendered posix pdf_data ''duration_ms'' ''812''"
  using rendered_safe_integer [of posix pdf_data "''size_bytes''" 8 "''8''"]
    rendered_safe_integer [of posix pdf_data "''duration_ms''" 812 "''812''"]
  by (simp_all add: pdf_data_def getprop_def get_def show_int_8 show_int_812)

lemma page_data_rendered:
  "rendered posix page_data ''duration_ms'' ''640''"
  using rendered_safe_integer [of posix page_data "''duration_ms''" 640 "''640''"]
  by (simp_all add: page_data_def getprop_def get_def show_int_640)

lemma sequence_data_rendered:
  "rendered posix sequence_data ''total_duration_ms'' ''1830''"
  using rendered_safe_integer [of posix sequence_data "''total_duration_ms''" 1830 "''1830''"]
  by (simp_all add: sequence_data_def sequence_members_def getprop_def get_def show_int_1830)

lemma video_data_scaled:
  "scaled posix (video_data 1000 2500) ''size_bytes'' 1024 ''1.0''"
  "scaled posix (video_data 1000 2500) ''duration_ms'' 1000 ''2.5''"
proof -
  have "getprop posix (video_data 1000 2500) ''size_bytes'' = Inr (Num 1000)"
    "getprop posix (video_data 1000 2500) ''duration_ms'' = Inr (Num 2500)"
    by (simp_all add: video_data_def getprop_def get_def)
  moreover have "ToNumber posix (Num 1000) = Inr (Fin 1000)"
    "ToNumber posix (Num 2500) = Inr (Fin 2500)"
    by (simp_all add: ToNumber_def)
  ultimately show "scaled posix (video_data 1000 2500) ''size_bytes'' 1024 ''1.0''"
    "scaled posix (video_data 1000 2500) ''duration_ms'' 1000 ''2.5''"
    unfolding scaled_def using kb_1000 [symmetric] sec_2500 [symmetric] by blast+
qed

theorem size_and_duration_in_text_witness:
  "(fst (take_screenshot posix (backend shot_data) screenshot_call) = Returned screenshot_example \<and>
    \<not> isError screenshot_example \<and>
    (\<exists>img more.
       content screenshot_example =
         img # Text (''Screenshot captured successfully. Format: '' @
                     or_default (ss_format screenshot_call) ''png'' @ '', Size: '' @ ''20480'' @
                     '' bytes, Duration: '' @ ''812'' @ ''ms'') # more)) \<and>
   (fst (generate_pdf posix (backend pdf_data) (pdf_call None)) = Returned pdf_example \<and>
    \<not> isError pdf_example \<and>
    (\<exists>doc pre.
       content pdf_example = [doc, Text (pre @ ''  Size: '' @ ''8'' @ '' bytes'' @ newline @
                                         ''  Duration: '' @ ''812'' @ ''ms'')])) \<and>
   (fst (create_og_image posix (backend shot_data) og_call) = Returned og_example \<and>
    \<not> isError og_example \<and>
    (\<exists>img.
       content og_example =
         [img, Text (''OG image created successfully. Format: '' @
                     or_default (og_format og_call) ''png'' @ '', Size: '' @ ''20480'' @
                     '' bytes, Duration: '' @ ''812'' @ ''ms'')])) \<and>
   (fst (inspect_page posix (backend page_data) inspect_call) = Returned inspect_example \<and>
    \<not> isError inspect_example \<and>
    (\<exists>pre. content inspect_example = [Text (pre @ ''Duration: '' @ ''640'' @ ''ms'')])) \<and>
   (fst (run_sequence posix (backend sequence_data) sequence_call) = Returned sequence_example \<and>
    \<not> isError sequence_example \<and>
    (\<exists>outputs outs itemss pre post.
       getprop posix sequence_data ''outputs'' = Inr outputs \<and>
       iterate posix outputs = Inr outs \<and>
       list_all2 (reports_output posix) outs itemss \<and>
       content sequence_example = concat itemss @
         [Text (''Sequence complete: '' @ pre @ '' outputs, '' @ ''1830'' @ ''ms total.'' @
                post)])) \<and>
   (fst (record_video posix (backend (video_data 1000 2500)) (video_call None)) =
      Returned video_example \<and>
    \<not> isError video_example \<and>
    (\<exists>doc pre post.
       content video_example = [doc, Text (pre @ ''  Size:     '' @ ''1.0'' @ '' KB'' @ newline @
                                           ''  Duration: '' @ ''2.5'' @ ''s'' @ newline @ post)]))"
proof -
  have e: "\<not> isError screenshot_example" "\<not> isError pdf_example" "\<not> isError og_example"
    "\<not> isError inspect_example" "\<not> isError sequence_example" "\<not> isError video_example"
    by (simp_all add: screenshot_example_def pdf_example_def og_example_def inspect_example_def
          sequence_example_def video_example_def)
  note t1 = size_and_duration_in_text [of posix "backend shot_data" screenshot_call
      screenshot_example "pdf_call None" pdf_example og_call og_example inspect_call
      inspect_example sequence_call sequence_example "video_call None" video_example]
  note t2 = size_and_duration_in_text [of posix "backend pdf_data" screenshot_call
      screenshot_example "pdf_call None" pdf_example og_call og_example inspect_call
      inspect_example sequence_call sequence_example "video_call None" video_example]
  note t4 = size_and_duration_in_text [of posix "backend page_data" screenshot_call
      screenshot_example "pdf_call None" pdf_example og_call og_example inspect_call
      inspect_example sequence_call sequence_example "video_call None" video_example]
  note t5 = size_and_duration_in_text [of posix "backend sequence_data" screenshot_call
      screenshot_example "pdf_call None" pdf_example og_call og_example inspect_call
      inspect_example sequence_call sequence_example "video_call None" video_example]
  note t6 = size_and_duration_in_text [of posix "backend (video_data 1000 2500)" screenshot_call
      screenshot_example "pdf_call None" pdf_example og_call og_example inspect_call
      inspect_example sequence_call sequence_example "video_call None" video_example]
  from t1 screenshot_example_run e(1) obtain data s1 s2 img more where
    "backend_data (backend shot_data)
       (snd (take_screenshot posix (backend shot_data) screenshot_call)) data"
    "rendered posix data ''size_bytes'' s1" "rendered posix data ''duration_ms'' s2"
    "content screenshot_example =
       img # Text (''Screenshot captured successfully. Format: '' @
                   or_default (ss_format screenshot_call) ''png'' @ '', Size: '' @ s1 @
                   '' bytes, Duration: '' @ s2 @ ''ms'') # more"
    by blast
  with backend_data_backend shot_data_rendered rendered_unique
  have c1: "\<exists>img more.
       content screenshot_example =
         img # Text (''Screenshot captured successfully. Format: '' @
                     or_default (ss_format screenshot_call) ''png'' @ '', Size: '' @ ''20480'' @
                     '' bytes, Duration: '' @ ''812'' @ ''ms'') # more"
    by metis
  from t2 pdf_example_run e(2) obtain data s1 s2 doc pre where
    "backend_data (backend pdf_data)
       (snd (generate_pdf posix (backend pdf_data) (pdf_call None))) data"
    "rendered posix data ''size_bytes'' s1" "rendered posix data ''duration_ms'' s2"
    "content pdf_example = [doc, Text (pre @ ''  Size: '' @ s1 @ '' bytes'' @ newline @
                                       ''  Duration: '' @ s2 @ ''ms'')]"
    by blast
  with backend_data_backend pdf_data_rendered rendered_unique
  have c2: "\<exists>doc pre.
       content pdf_example = [doc, Text (pre @ ''  Size: '' @ ''8'' @ '' bytes'' @ newline @
                                         ''  Duration: '' @ ''812'' @ ''ms'')]"
    by metis
  from t1 og_example_run e(3) obtain data s1 s2 img where
    "backend_data (backend shot_data)
       (snd (create_og_image posix (backend shot_data) og_call)) data"
    "rendered posix data ''size_bytes'' s1" "rendered posix data ''duration_ms'' s2"
    "content og_example =
         [img, Text (''OG image created successfully. Format: '' @
                     or_default (og_format og_call) ''png'' @ '', Size: '' @ s1 @
                     '' bytes, Duration: '' @ s2 @ ''ms'')]"
    by blast
  with backend_data_backend shot_data_rendered rendered_unique
  have c3: "\<exists>img.
       content og_example =
         [img, Text (''OG image created successfully. Format: '' @
                     or_default (og_format og_call) ''png'' @ '', Size: '' @ ''20480'' @
                     '' bytes, Duration: '' @ ''812'' @ ''ms'')]"
    by metis
  from t4 inspect_example_run e(4) obtain data s pre where
    "backend_data (backend page_data)
       (snd (inspect_page posix (backend page_data) inspect_call)) data"
    "rendered posix data ''duration_ms'' s"
    "content inspect_example = [Text (pre @ ''Duration: '' @ s @ ''ms'')]"
    by blast
  with backend_data_backend page_data_rendered rendered_unique
  have c4: "\<exists>pre. content inspect_example = [Text (pre @ ''Duration: '' @ ''640'' @ ''ms'')]"
    by metis
  from t5 sequence_example_run e(5) obtain data outputs outs itemss s pre post where
    "backend_data (backend sequence_data)
       (snd (run_sequence posix (backend sequence_data) sequence_call)) data"
    "getprop posix data ''outputs'' = Inr outputs" "iterate posix outputs = Inr outs"
    "list_all2 (reports_output posix) outs itemss"
    "rendered posix data ''total_duration_ms'' s"
    "content sequence_example = concat itemss @
       [Text (''Sequence complete: '' @ pre @ '' outputs, '' @ s @ ''ms total.'' @ post)]"
    by blast
  with backend_data_backend sequence_data_rendered rendered_unique
  have c5: "\<exists>outputs outs itemss pre post.
       getprop posix sequence_data ''outputs'' = Inr outputs \<and>
       iterate posix outputs = Inr outs \<and>
       list_all2 (reports_output posix) outs itemss \<and>
       content sequence_example = concat itemss @
         [Text (''Sequence complete: '' @ pre @ '' outputs, '' @ ''1830'' @ ''ms total.'' @
                post)]"
    by metis
  from t6 video_example_run e(6) obtain data kb sec doc pre post where
    "backend_data (backend (video_data 1000 2500))
       (snd (record_video posix (backend (video_data 1000 2500)) (video_call None))) data"
    "scaled posix data ''size_bytes'' 1024 kb" "scaled posix data ''duration_ms'' 1000 sec"
    "content video_example = [doc, Text (pre @ ''  Size:     '' @ kb @ '' KB'' @ newline @
                                         ''  Duration: '' @ sec @ ''s'' @ newline @ post)]"
    by blast
  with backend_data_backend video_data_scaled scaled_unique
  have c6: "\<exists>doc pre post.
       content video_example = [doc, Text (pre @ ''  Size:     '' @ ''1.0'' @ '' KB'' @ newline @
                                           ''  Duration: '' @ ''2.5'' @ ''s'' @ newline @ post)]"
    by metis
  from e c1 c2 c3 c4 c5 c6 screenshot_example_run pdf_example_run og_example_run
    inspect_example_run sequence_example_run video_example_run
  show ?thesis by blast
qed

end
